theory Spec2Isabelle
  imports Main
begin

section \<open>Values\<close>

text \<open>
  The conversion engine of \<^verbatim>\<open>image.py\<close> (lines 79--107, 249--407 and the batch
  loop at 764--779) is embedded here. Python exceptions are values of \<open>exn\<close>, and a
  function that may raise returns \<open>exn + 'a\<close> with \<open>Inl\<close> for the exception. A function
  that touches the file system or the logger takes the world and returns the new one.
\<close>

type_synonym bytes = string

type_synonym pixel = "int list"

datatype exn =
    ValueError string
  | IndexError
  | KeyError string
  | FileNotFoundError string
  | SameFileError
  | OSError string

text \<open>
  A \<^verbatim>\<open>pathlib.Path\<close> of a source file, with the attributes the engine reads:
  \<^verbatim>\<open>.stem\<close>, \<^verbatim>\<open>.suffix\<close> and the directory it lies in. \<^verbatim>\<open>str(path)\<close> is the
  key under which the file system holds the file.
\<close>

record path =
  parent :: string
  stem :: string
  suffix :: string

definition str_path :: "path \<Rightarrow> string" where
  "str_path p = parent p @ ''/'' @ stem p @ suffix p"

text \<open>\<^verbatim>\<open>output_folder / name\<close>\<close>

definition joinpath :: "string \<Rightarrow> string \<Rightarrow> string" where
  "joinpath folder name = folder @ ''/'' @ name"

text \<open>
  A PIL image: its mode, its size (width, height), the pixels that \<^verbatim>\<open>getdata()\<close>
  yields (one list of band values per pixel) and the \<^verbatim>\<open>"dpi"\<close> entry of \<^verbatim>\<open>info\<close>.
\<close>

record image =
  mode :: string
  img_size :: "nat \<times> nat"
  pixels :: "pixel list"
  dpi :: "(int \<times> int) option"

text \<open>The keyword arguments of \<^verbatim>\<open>img.save\<close> that the engine passes.\<close>

datatype save_opts = NoOpts | Quality int | Resolution int

text \<open>One constructor per logger call of the engine, holding the values its message formats.\<close>

datatype log_entry =
    Debug_svg_saved string
  | Error_saving_svg exn
  | Info_converted_image string string
  | Error_opening_pdf string exn
  | Info_converted_pdf_page nat string
  | Error_converting_pdf_page nat string exn
  | Info_copied_document string string
  | Error_copying_document string exn
  | Error_converting string exn

record world =
  files :: "string \<rightharpoonup> bytes"
  logged :: "log_entry list"

definition log_add :: "log_entry \<Rightarrow> world \<Rightarrow> world" where
  "log_add e w = w\<lparr>logged := logged w @ [e]\<rparr>"

section \<open>The libraries the engine calls\<close>

text \<open>
  Pillow, PyMuPDF, base64 and the operating system are not part of the repository. What
  they compute is a parameter of the model: the decoder and the encoders of Pillow, its
  mode conversion, the PDF parser and the page renderer of PyMuPDF, and the decision of
  the operating system to refuse a write. Every theorem holds for all of them.

  An opened PDF is the sequence of what the loop \<^verbatim>\<open>for i, page in enumerate(doc)\<close>
  gets from the document, one entry per step: a page, or the exception that the step
  raises (PyMuPDF raises \<^verbatim>\<open>ValueError\<close> there for an encrypted document).

  For a copy that fails, \<open>os_write_residue\<close> says what the destination holds
  afterwards: \<open>None\<close> when it is as before, or the truncated or partial content.
  \<open>os_chmod_error\<close> is the failure of copying the permission bits after the content.
\<close>

record ('page, 'pix) env =
  pil_decode :: "bytes \<Rightarrow> exn + image"
  pil_convert :: "image \<Rightarrow> string \<Rightarrow> exn + image"
  pil_encode :: "image \<Rightarrow> string \<Rightarrow> save_opts \<Rightarrow> exn + bytes"
  os_write_error :: "(string \<rightharpoonup> bytes) \<Rightarrow> string \<Rightarrow> exn option"
  os_write_residue :: "(string \<rightharpoonup> bytes) \<Rightarrow> string \<Rightarrow> bytes \<Rightarrow> bytes option"
  os_chmod_error :: "(string \<rightharpoonup> bytes) \<Rightarrow> string \<Rightarrow> exn option"
  b64encode :: "bytes \<Rightarrow> string"
  fitz_parse :: "bytes \<Rightarrow> exn + (exn + 'page) list"
  get_pixmap :: "'page \<Rightarrow> nat \<Rightarrow> exn + 'pix"
  tobytes :: "'pix \<Rightarrow> string \<Rightarrow> exn + bytes"

text \<open>
  Writing a file: the operating system refuses (permissions, missing directory, full
  disk) or the file holds the new content. A refused write leaves the files as they were.
\<close>

definition write_file ::
  "('page, 'pix) env \<Rightarrow> world \<Rightarrow> string \<Rightarrow> bytes \<Rightarrow> world \<times> (exn + unit)" where
  "write_file env w name content =
     (case os_write_error env (files w) name of
        Some e \<Rightarrow> (w, Inl e)
      | None \<Rightarrow> (w\<lparr>files := (files w)(name \<mapsto> content)\<rparr>, Inr ()))"

text \<open>\<^verbatim>\<open>Image.open(file_path)\<close>\<close>

definition Image_open :: "('page, 'pix) env \<Rightarrow> world \<Rightarrow> string \<Rightarrow> exn + image" where
  "Image_open env w name =
     (case files w name of
        None \<Rightarrow> Inl (FileNotFoundError name)
      | Some content \<Rightarrow> pil_decode env content)"

text \<open>\<^verbatim>\<open>img.save(out_path, output_format, ...)\<close>: encode, then write.\<close>

definition Image_save ::
  "('page, 'pix) env \<Rightarrow> world \<Rightarrow> image \<Rightarrow> string \<Rightarrow> string \<Rightarrow> save_opts \<Rightarrow> world \<times> (exn + unit)" where
  "Image_save env w img name fmt opts =
     (case pil_encode env img fmt opts of
        Inl e \<Rightarrow> (w, Inl e)
      | Inr content \<Rightarrow> write_file env w name content)"

text \<open>\<^verbatim>\<open>fitz.open(str(file_path))\<close>\<close>

definition fitz_open ::
  "('page, 'pix) env \<Rightarrow> world \<Rightarrow> string \<Rightarrow> exn + (exn + 'page) list" where
  "fitz_open env w name =
     (case files w name of
        None \<Rightarrow> Inl (FileNotFoundError name)
      | Some content \<Rightarrow> fitz_parse env content)"

text \<open>
  \<^verbatim>\<open>shutil.copy(src, dst)\<close>, that is \<^verbatim>\<open>copyfile\<close> and then \<^verbatim>\<open>copymode\<close>: it
  refuses to copy a file onto itself and reads the source; a write that fails may leave
  a created, truncated or partial destination behind before it raises; after a complete
  write the permission bits are copied, and a failure there raises with the destination
  fully written.
\<close>

definition shutil_copy ::
  "('page, 'pix) env \<Rightarrow> world \<Rightarrow> string \<Rightarrow> string \<Rightarrow> world \<times> (exn + unit)" where
  "shutil_copy env w src dst =
     (if src = dst then (w, Inl SameFileError)
      else case files w src of
        None \<Rightarrow> (w, Inl (FileNotFoundError src))
      | Some content \<Rightarrow>
          (case os_write_error env (files w) dst of
             Some e \<Rightarrow>
               (case os_write_residue env (files w) dst content of
                  None \<Rightarrow> (w, Inl e)
                | Some part \<Rightarrow> (w\<lparr>files := (files w)(dst \<mapsto> part)\<rparr>, Inl e))
           | None \<Rightarrow>
               (let w1 = w\<lparr>files := (files w)(dst \<mapsto> content)\<rparr>
                in case os_chmod_error env (files w1) dst of
                     Some e \<Rightarrow> (w1, Inl e)
                   | None \<Rightarrow> (w1, Inr ()))))"

text \<open>\<^verbatim>\<open>str.lower()\<close> and \<^verbatim>\<open>str.upper()\<close> on the ASCII letters.\<close>

definition lower_char :: "char \<Rightarrow> char" where
  "lower_char c =
     (let n = of_char c :: nat in if 65 \<le> n \<and> n \<le> 90 then char_of (n + 32) else c)"

definition upper_char :: "char \<Rightarrow> char" where
  "upper_char c =
     (let n = of_char c :: nat in if 97 \<le> n \<and> n \<le> 122 then char_of (n - 32) else c)"

definition lower :: "string \<Rightarrow> string" where
  "lower s = map lower_char s"

definition upper :: "string \<Rightarrow> string" where
  "upper s = map upper_char s"

text \<open>The decimal digits of a number, as an f-string formats it.\<close>

function str_nat :: "nat \<Rightarrow> string" where
  "str_nat n =
     (if n < 10 then [char_of (48 + n)]
      else str_nat (n div 10) @ [char_of (48 + n mod 10)])"
  by pat_completeness auto
termination
  by (relation "measure id") auto

declare str_nat.simps [simp del]

section \<open>Constants (lines 79--107)\<close>

definition FORMAT_MAPPING :: "string \<rightharpoonup> string \<times> string" where
  "FORMAT_MAPPING = map_of
     [(''JPEG'', (''JPEG'', ''.jpg'')),
      (''JPG'', (''JPEG'', ''.jpg'')),
      (''JPGE'', (''JPEG'', ''.jpg'')),
      (''JFIF'', (''JPEG'', ''.jfif'')),
      (''PNG'', (''PNG'', ''.png'')),
      (''BMP'', (''BMP'', ''.bmp'')),
      (''GIF'', (''GIF'', ''.gif'')),
      (''TIFF'', (''TIFF'', ''.tiff'')),
      (''WEBP'', (''WEBP'', ''.webp'')),
      (''ICO'', (''ICO'', ''.ico'')),
      (''PPM'', (''PPM'', ''.ppm'')),
      (''TGA'', (''TGA'', ''.tga'')),
      (''JPEG2000'', (''JPEG2000'', ''.jp2'')),
      (''PDF'', (''PDF'', ''.pdf'')),
      (''SVG'', (''SVG'', ''.svg'')),
      (''HEIC'', (''HEIC'', ''.heic'')),
      (''EXCEL'', (''EXCEL'', ''.xlsx'')),
      (''WORD'', (''WORD'', ''.docx'')),
      (''CSV'', (''CSV'', ''.csv''))]"

text \<open>\<^verbatim>\<open>d.get(key, default)\<close>\<close>

definition dict_get :: "('k \<rightharpoonup> 'v) \<Rightarrow> 'k \<Rightarrow> 'v \<Rightarrow> 'v" where
  "dict_get d k dflt = (case d k of None \<Rightarrow> dflt | Some v \<Rightarrow> v)"

section \<open>Image processing (lines 249--295)\<close>

definition default_bg_color :: "int \<times> int \<times> int" where
  "default_bg_color = (255, 255, 255)"

definition default_tolerance :: int where
  "default_tolerance = 30"

text \<open>\<^verbatim>\<open>item[k]\<close> on a tuple: out of range raises.\<close>

definition item_get :: "pixel \<Rightarrow> nat \<Rightarrow> exn + int" where
  "item_get item k = (if k < length item then Inr (item ! k) else Inl IndexError)"

text \<open>
  The condition of line 263--265. \<^verbatim>\<open>and\<close> evaluates its right operand only when
  the left one holds.
\<close>

definition is_background :: "pixel \<Rightarrow> int \<times> int \<times> int \<Rightarrow> int \<Rightarrow> exn + bool" where
  "is_background item bg_color tolerance =
     (case bg_color of (bg0, bg1, bg2) \<Rightarrow>
        (case item_get item 0 of
           Inl e \<Rightarrow> Inl e
         | Inr c0 \<Rightarrow>
             if \<not> \<bar>c0 - bg0\<bar> < tolerance then Inr False
             else (case item_get item 1 of
               Inl e \<Rightarrow> Inl e
             | Inr c1 \<Rightarrow>
                 if \<not> \<bar>c1 - bg1\<bar> < tolerance then Inr False
                 else (case item_get item 2 of
                   Inl e \<Rightarrow> Inl e
                 | Inr c2 \<Rightarrow> Inr (\<bar>c2 - bg2\<bar> < tolerance)))))"

text \<open>The loop of lines 262--268 over \<^verbatim>\<open>datas\<close>, appending to \<^verbatim>\<open>newData\<close>.\<close>

fun remove_background_loop ::
  "pixel list \<Rightarrow> int \<times> int \<times> int \<Rightarrow> int \<Rightarrow> pixel list \<Rightarrow> exn + pixel list" where
  "remove_background_loop [] bg_color tolerance newData = Inr newData"
| "remove_background_loop (item # datas) bg_color tolerance newData =
     (case is_background item bg_color tolerance of
        Inl e \<Rightarrow> Inl e
      | Inr True \<Rightarrow>
          remove_background_loop datas bg_color tolerance
            (newData @ [[item ! 0, item ! 1, item ! 2, 0]])
      | Inr False \<Rightarrow>
          remove_background_loop datas bg_color tolerance (newData @ [item]))"

definition remove_background ::
  "('page, 'pix) env \<Rightarrow> image \<Rightarrow> int \<times> int \<times> int \<Rightarrow> int \<Rightarrow> exn + image" where
  "remove_background env img bg_color tolerance =
     (case pil_convert env img ''RGBA'' of
        Inl e \<Rightarrow> Inl e
      | Inr img1 \<Rightarrow>
          (case remove_background_loop (pixels img1) bg_color tolerance [] of
             Inl e \<Rightarrow> Inl e
           | Inr newData \<Rightarrow> Inr (img1\<lparr>pixels := newData\<rparr>)))"

text \<open>The text of lines 285--289.\<close>

definition svg_str :: "nat \<Rightarrow> nat \<Rightarrow> string \<Rightarrow> string" where
  "svg_str width height data =
     (let q = [CHR 0x22]; nl = [CHR 0x0A] in
      ''<?xml version='' @ q @ ''1.0'' @ q @ '' encoding='' @ q @ ''UTF-8'' @ q
        @ '' standalone='' @ q @ ''no'' @ q @ ''?>'' @ nl
      @ ''<svg xmlns='' @ q @ ''http://www.w3.org/2000/svg'' @ q
        @ '' width='' @ q @ str_nat width @ q
        @ '' height='' @ q @ str_nat height @ q @ ''>'' @ nl
      @ ''  <image href='' @ q @ ''data:image/png;base64,'' @ data @ q
        @ '' width='' @ q @ str_nat width @ q
        @ '' height='' @ q @ str_nat height @ q @ '' />'' @ nl
      @ ''</svg>'' @ nl)"

definition save_as_svg ::
  "('page, 'pix) env \<Rightarrow> world \<Rightarrow> image \<Rightarrow> string \<Rightarrow> world \<times> (exn + unit)" where
  "save_as_svg env w img output_path =
     (case remove_background env img default_bg_color default_tolerance of
        Inl e \<Rightarrow> (w, Inl e)
      | Inr img1 \<Rightarrow>
          (case pil_encode env img1 ''PNG'' NoOpts of
             Inl e \<Rightarrow> (w, Inl e)
           | Inr buf \<Rightarrow>
               (let data = b64encode env buf;
                    (width, height) = img_size img1
                in case write_file env w output_path (svg_str width height data) of
                     (w1, Inr _) \<Rightarrow> (log_add (Debug_svg_saved output_path) w1, Inr ())
                   | (w1, Inl e) \<Rightarrow> (log_add (Error_saving_svg e) w1, Inr ()))))"

section \<open>File conversion (lines 298--407)\<close>

text \<open>Lines 310--311: the mode that the encoder of a single image is given.\<close>

definition convert_image_file_mode ::
  "('page, 'pix) env \<Rightarrow> string \<Rightarrow> image \<Rightarrow> exn + image" where
  "convert_image_file_mode env output_format img =
     (if output_format \<in> set [''JPEG'', ''JPEG2000'', ''HEIC''] \<and> mode img \<noteq> ''RGB''
      then pil_convert env img ''RGB'' else Inr img)"

text \<open>Lines 312--320: the encoder call for a single image.\<close>

definition convert_image_file_save ::
  "('page, 'pix) env \<Rightarrow> world \<Rightarrow> image \<Rightarrow> string \<Rightarrow> string \<Rightarrow> world \<times> (exn + unit)" where
  "convert_image_file_save env w img out_path output_format =
     (if output_format = ''SVG'' then save_as_svg env w img out_path
      else if output_format = ''JPEG'' then
        Image_save env w img out_path output_format (Quality 100)
      else if output_format = ''PDF'' then
        (let dpi0 = fst (case dpi img of None \<Rightarrow> (300, 300) | Some d \<Rightarrow> d)
         in Image_save env w img out_path output_format (Resolution dpi0))
      else Image_save env w img out_path output_format NoOpts)"

definition convert_image_file ::
  "('page, 'pix) env \<Rightarrow> world \<Rightarrow> path \<Rightarrow> string \<Rightarrow> string \<Rightarrow> string \<Rightarrow> world \<times> (exn + unit)" where
  "convert_image_file env w file_path output_folder output_format ext_out =
     (let base_name = stem file_path;
          out_path = joinpath output_folder (base_name @ ext_out)
      in case Image_open env w (str_path file_path) of
           Inl e \<Rightarrow> (w, Inl e)
         | Inr img0 \<Rightarrow>
             (case convert_image_file_mode env output_format img0 of
                Inl e \<Rightarrow> (w, Inl e)
              | Inr img \<Rightarrow>
                  (case convert_image_file_save env w img out_path output_format of
                     (w1, Inl e) \<Rightarrow> (w1, Inl e)
                   | (w1, Inr u) \<Rightarrow>
                       (log_add (Info_converted_image (str_path file_path) out_path) w1,
                        Inr ()))))"

text \<open>Lines 348--349: the mode that the encoder of a PDF page is given.\<close>

definition convert_pdf_file_mode ::
  "('page, 'pix) env \<Rightarrow> string \<Rightarrow> image \<Rightarrow> exn + image" where
  "convert_pdf_file_mode env output_format page_img =
     (if output_format \<in> set [''JPEG'', ''JPEG2000''] \<and> mode page_img \<noteq> ''RGB''
      then pil_convert env page_img ''RGB'' else Inr page_img)"

text \<open>Lines 352--360: the encoder call for a PDF page.\<close>

definition convert_pdf_file_save ::
  "('page, 'pix) env \<Rightarrow> world \<Rightarrow> image \<Rightarrow> string \<Rightarrow> string \<Rightarrow> world \<times> (exn + unit)" where
  "convert_pdf_file_save env w page_img out_path output_format =
     (if output_format = ''SVG'' then save_as_svg env w page_img out_path
      else if output_format = ''JPEG'' then
        Image_save env w page_img out_path output_format (Quality 100)
      else if output_format = ''PDF'' then
        (let dpi0 = fst (case dpi page_img of None \<Rightarrow> (300, 300) | Some d \<Rightarrow> d)
         in Image_save env w page_img out_path output_format (Resolution dpi0))
      else Image_save env w page_img out_path output_format NoOpts)"

text \<open>
  The body of the \<^verbatim>\<open>try\<close> of lines 345--362 for the page with index \<open>i\<close>; the
  \<^verbatim>\<open>count += 1\<close> of its last line is done by the loop below when the body returns.
\<close>

definition convert_pdf_page ::
  "('page, 'pix) env \<Rightarrow> world \<Rightarrow> string \<Rightarrow> string \<Rightarrow> string \<Rightarrow> string \<Rightarrow> nat \<Rightarrow> 'page
     \<Rightarrow> world \<times> (exn + unit)" where
  "convert_pdf_page env w base_name output_folder output_format ext_out i page =
     (case get_pixmap env page 3 of
        Inl e \<Rightarrow> (w, Inl e)
      | Inr pix \<Rightarrow>
          (case tobytes env pix ''png'' of
             Inl e \<Rightarrow> (w, Inl e)
           | Inr img_data \<Rightarrow>
               (case pil_decode env img_data of
                  Inl e \<Rightarrow> (w, Inl e)
                | Inr page_img0 \<Rightarrow>
                    (case convert_pdf_file_mode env output_format page_img0 of
                       Inl e \<Rightarrow> (w, Inl e)
                     | Inr page_img \<Rightarrow>
                         (let out_name = base_name @ ''_page'' @ str_nat (i + 1) @ ext_out;
                              out_path = joinpath output_folder out_name
                          in case convert_pdf_file_save env w page_img out_path output_format of
                               (w1, Inl e) \<Rightarrow> (w1, Inl e)
                             | (w1, Inr u) \<Rightarrow>
                                 (log_add (Info_converted_pdf_page (i + 1) out_path) w1,
                                  Inr ()))))))"

text \<open>
  The loop of lines 343--365 from index \<open>i\<close> on, with the \<^verbatim>\<open>except\<close> of 363. The
  step of the iteration is outside every \<^verbatim>\<open>try\<close>: when it raises, the exception
  leaves the function and the count is lost.
\<close>

fun convert_pdf_loop ::
  "('page, 'pix) env \<Rightarrow> world \<Rightarrow> path \<Rightarrow> string \<Rightarrow> string \<Rightarrow> string \<Rightarrow> nat
     \<Rightarrow> (exn + 'page) list \<Rightarrow> nat \<Rightarrow> world \<times> (exn + nat)" where
  "convert_pdf_loop env w file_path output_folder output_format ext_out i [] count =
     (w, Inr count)"
| "convert_pdf_loop env w file_path output_folder output_format ext_out i (Inl e # doc) count =
     (w, Inl e)"
| "convert_pdf_loop env w file_path output_folder output_format ext_out i (Inr page # doc) count =
     (case convert_pdf_page env w (stem file_path) output_folder output_format ext_out i page of
        (w1, Inr _) \<Rightarrow>
          convert_pdf_loop env w1 file_path output_folder output_format ext_out (i + 1) doc
            (count + 1)
      | (w1, Inl e) \<Rightarrow>
          convert_pdf_loop env
            (log_add (Error_converting_pdf_page (i + 1) (str_path file_path) e) w1)
            file_path output_folder output_format ext_out (i + 1) doc count)"

definition convert_pdf_file ::
  "('page, 'pix) env \<Rightarrow> world \<Rightarrow> path \<Rightarrow> string \<Rightarrow> string \<Rightarrow> string
     \<Rightarrow> world \<times> (exn + nat)" where
  "convert_pdf_file env w file_path output_folder output_format ext_out =
     (case fitz_open env w (str_path file_path) of
        Inl e \<Rightarrow> (log_add (Error_opening_pdf (str_path file_path) e) w, Inr 0)
      | Inr doc \<Rightarrow>
          convert_pdf_loop env w file_path output_folder output_format ext_out 0 doc 0)"

definition convert_document_file ::
  "('page, 'pix) env \<Rightarrow> world \<Rightarrow> path \<Rightarrow> string \<Rightarrow> string \<Rightarrow> string \<Rightarrow> world" where
  "convert_document_file env w file_path output_folder output_format ext_out =
     (let base_name = stem file_path;
          out_path = joinpath output_folder (base_name @ ext_out)
      in case shutil_copy env w (str_path file_path) out_path of
           (w1, Inr _) \<Rightarrow> log_add (Info_copied_document (str_path file_path) out_path) w1
         | (w1, Inl e) \<Rightarrow> log_add (Error_copying_document (str_path file_path) e) w1)"

definition convert_file ::
  "('page, 'pix) env \<Rightarrow> world \<Rightarrow> path \<Rightarrow> string \<Rightarrow> string \<Rightarrow> world \<times> (exn + nat)" where
  "convert_file env w file_path output_folder selected_format =
     (case dict_get FORMAT_MAPPING selected_format (''JPEG'', ''.jpg'') of
        (output_format, ext_out) \<Rightarrow>
          (let ext_in = lower (suffix file_path) in
           if ext_in = ''.pdf'' then
             convert_pdf_file env w file_path output_folder output_format ext_out
           else if ext_in \<in> set [''.doc'', ''.docx'', ''.xlsx'', ''.xls'', ''.csv''] then
             (if output_format \<notin> set [''EXCEL'', ''WORD'', ''CSV''] then
                (w, Inl (ValueError (''Cannot convert document file '' @ str_path file_path
                                      @ '' to '' @ output_format @ '' format.'')))
              else
                (convert_document_file env w file_path output_folder output_format ext_out,
                 Inr 1))
           else
             (if output_format \<in> set [''EXCEL'', ''WORD'', ''CSV''] then
                (w, Inl (ValueError (''Cannot convert image file '' @ str_path file_path
                                      @ '' to '' @ output_format @ '' format.'')))
              else
                (case convert_image_file env w file_path output_folder output_format ext_out of
                   (w1, Inl e) \<Rightarrow> (w1, Inl e)
                 | (w1, Inr _) \<Rightarrow> (w1, Inr 1)))))"

section \<open>The batch loop (lines 764--779)\<close>

text \<open>
  The loop of \<^verbatim>\<open>convert_files\<close> over \<^verbatim>\<open>self.files\<close>, with its \<^verbatim>\<open>count\<close> and
  \<^verbatim>\<open>errors\<close>. An error message is kept as the file and the exception it formats. The
  progress bar is not modelled.
\<close>

fun convert_files_loop ::
  "('page, 'pix) env \<Rightarrow> world \<Rightarrow> string \<Rightarrow> string \<Rightarrow> path list \<Rightarrow> nat \<Rightarrow> (string \<times> exn) list
     \<Rightarrow> world \<times> nat \<times> (string \<times> exn) list" where
  "convert_files_loop env w output_folder selected_format [] count errors =
     (w, count, errors)"
| "convert_files_loop env w output_folder selected_format (file # rest) count errors =
     (case convert_file env w file output_folder selected_format of
        (w1, Inr result) \<Rightarrow>
          convert_files_loop env w1 output_folder selected_format rest (count + result) errors
      | (w1, Inl e) \<Rightarrow>
          convert_files_loop env (log_add (Error_converting (str_path file) e) w1)
            output_folder selected_format rest count (errors @ [(str_path file, e)]))"

definition convert_files ::
  "('page, 'pix) env \<Rightarrow> world \<Rightarrow> path list \<Rightarrow> string \<Rightarrow> string
     \<Rightarrow> world \<times> nat \<times> (string \<times> exn) list" where
  "convert_files env w files0 output_folder format_var =
     convert_files_loop env w output_folder (upper format_var) files0 0 []"

section \<open>A concrete world\<close>

text \<open>
  One small instance of the libraries and of the file system, on which the theorems
  below are evaluated. Its images are RGB, RGBA or CMYK, and CMYK cannot be converted;
  its encoders know the raster formats of the table and require RGB for JPEG and
  JPEG2000; writes below \<^verbatim>\<open>/ro\<close> are refused and leave nothing behind; a PDF is the
  text \<^verbatim>\<open>%PDF\<close> followed by one character per step of the page iteration: the page
  \<^verbatim>\<open>x\<close> cannot be rendered, and at \<^verbatim>\<open>!\<close> the iteration raises as it does for an
  encrypted document.
\<close>

definition sample_image :: image where
  "sample_image =
     \<lparr>mode = ''RGB'', img_size = (2, 1), pixels = [[250, 250, 250], [200, 200, 200]],
      dpi = None\<rparr>"

definition sample_rgba :: image where
  "sample_rgba =
     \<lparr>mode = ''RGBA'', img_size = (2, 1),
      pixels = [[250, 250, 250, 255], [200, 200, 200, 255]], dpi = None\<rparr>"

definition sample_cmyk :: image where
  "sample_cmyk =
     \<lparr>mode = ''CMYK'', img_size = (1, 1), pixels = [[0, 0, 0, 0]], dpi = None\<rparr>"

definition sample_convert :: "image \<Rightarrow> string \<Rightarrow> exn + image" where
  "sample_convert img m =
     (if m = mode img then Inr img
      else if m = ''RGBA'' \<and> mode img = ''RGB'' then
        Inr (img\<lparr>mode := m, pixels := map (\<lambda>p. p @ [255]) (pixels img)\<rparr>)
      else if m = ''RGB'' \<and> mode img = ''RGBA'' then
        Inr (img\<lparr>mode := m, pixels := map (take 3) (pixels img)\<rparr>)
      else Inl (ValueError ''conversion not supported''))"

definition sample_encode :: "image \<Rightarrow> string \<Rightarrow> save_opts \<Rightarrow> exn + bytes" where
  "sample_encode img fmt opts =
     (if fmt \<notin> set [''JPEG'', ''PNG'', ''BMP'', ''GIF'', ''TIFF'', ''WEBP'', ''ICO'', ''PPM'',
                     ''TGA'', ''JPEG2000'', ''PDF'']
      then Inl (KeyError fmt)
      else if fmt \<in> set [''JPEG'', ''JPEG2000''] \<and> mode img \<noteq> ''RGB''
      then Inl (OSError ''cannot write mode'')
      else Inr (fmt @ '':'' @ mode img))"

definition sample_env :: "(char, char) env" where
  "sample_env =
     \<lparr>pil_decode = (\<lambda>content. if content = [] then Inl (OSError ''cannot identify image file'')
                              else if hd content = CHR ''a'' then Inr sample_rgba
                              else if hd content = CHR ''c'' then Inr sample_cmyk
                              else Inr sample_image),
      pil_convert = sample_convert,
      pil_encode = sample_encode,
      os_write_error = (\<lambda>fs name. if take 4 name = ''/ro/''
                                   then Some (OSError ''Permission denied'') else None),
      os_write_residue = (\<lambda>fs name content. None),
      os_chmod_error = (\<lambda>fs name. None),
      b64encode = (\<lambda>content. content),
      fitz_parse = (\<lambda>content.
        if take 4 content = ''%PDF'' then
          Inr (map (\<lambda>c. if c = CHR ''!'' then Inl (ValueError ''document closed or encrypted'')
                         else Inr c) (drop 4 content))
        else Inl (OSError ''cannot open broken document'')),
      get_pixmap = (\<lambda>page zoom. if page = CHR ''x'' then Inl (OSError ''cannot render page'')
                                 else Inr page),
      tobytes = (\<lambda>pix fmt. Inr [pix])\<rparr>"

definition sample_world :: world where
  "sample_world =
     \<lparr>files = [''/in/scan.pdf'' \<mapsto> ''%PDFppppxppppp'',
               ''/in/locked.pdf'' \<mapsto> ''%PDF!'',
               ''/in/photo.png'' \<mapsto> ''png'',
               ''/in/broken.png'' \<mapsto> [],
               ''/in/print.tif'' \<mapsto> ''cmyk'',
               ''/in/table.csv'' \<mapsto> ''x,y'',
               ''/in/report.docx'' \<mapsto> ''docx''],
      logged = []\<rparr>"

definition scan_pdf :: path where
  "scan_pdf = \<lparr>parent = ''/in'', stem = ''scan'', suffix = ''.pdf''\<rparr>"

definition locked_pdf :: path where
  "locked_pdf = \<lparr>parent = ''/in'', stem = ''locked'', suffix = ''.pdf''\<rparr>"

definition broken_png :: path where
  "broken_png = \<lparr>parent = ''/in'', stem = ''broken'', suffix = ''.png''\<rparr>"

definition print_tif :: path where
  "print_tif = \<lparr>parent = ''/in'', stem = ''print'', suffix = ''.tif''\<rparr>"

definition photo_png :: path where
  "photo_png = \<lparr>parent = ''/in'', stem = ''photo'', suffix = ''.png''\<rparr>"

definition table_csv :: path where
  "table_csv = \<lparr>parent = ''/in'', stem = ''table'', suffix = ''.csv''\<rparr>"

definition report_docx :: path where
  "report_docx = \<lparr>parent = ''/in'', stem = ''report'', suffix = ''.docx''\<rparr>"

section \<open>Reading the log\<close>





section \<open>Background removal\<close>

lemma is_background_rgba:
  "length item = 4 \<Longrightarrow>
   is_background item (r, g, b) tolerance =
     Inr (\<bar>item ! 0 - r\<bar> < tolerance \<and> \<bar>item ! 1 - g\<bar> < tolerance \<and> \<bar>item ! 2 - b\<bar> < tolerance)"
  by (simp add: is_background_def item_get_def)

lemma remove_background_loop_rgba:
  "\<forall>p \<in> set datas. length p = 4 \<Longrightarrow>
   remove_background_loop datas (r, g, b) tolerance newData =
     Inr (newData @ map (\<lambda>p. if \<bar>p ! 0 - r\<bar> < tolerance \<and> \<bar>p ! 1 - g\<bar> < tolerance
                                  \<and> \<bar>p ! 2 - b\<bar> < tolerance
                               then [p ! 0, p ! 1, p ! 2, 0] else p) datas)"
proof (induction datas arbitrary: newData)
  case Nil
  then show ?case by simp
next
  case (Cons item datas)
  then have len: "length item = 4" and rest: "\<forall>p \<in> set datas. length p = 4"
    by simp_all
  show ?case
    by (simp add: is_background_rgba [OF len] Cons.IH [OF rest] del: One_nat_def
          split: bool.split)
qed

text \<open>
  C1. \<^verbatim>\<open>remove_background\<close> returns the image that the conversion to RGBA gave
  (four bands per pixel), with the same mode, size and number of pixels, in which a pixel
  whose red, green and blue each differ from the reference color by strictly less than
  the tolerance keeps its three color values and has alpha 0, and every other pixel is
  the pixel of the RGBA image, alpha included.
\<close>

theorem remove_background_keys_out_reference_color:
  assumes conv: "pil_convert env img ''RGBA'' = Inr rgba"
    and bands: "\<forall>p \<in> set (pixels rgba). length p = 4"
  shows "\<exists>out. remove_background env img (r, g, b) tolerance = Inr out
           \<and> out = rgba\<lparr>pixels := pixels out\<rparr>
           \<and> length (pixels out) = length (pixels rgba)
           \<and> (\<forall>i < length (pixels rgba).
                 pixels out ! i =
                   (let p = pixels rgba ! i
                    in if \<bar>p ! 0 - r\<bar> < tolerance \<and> \<bar>p ! 1 - g\<bar> < tolerance
                          \<and> \<bar>p ! 2 - b\<bar> < tolerance
                       then [p ! 0, p ! 1, p ! 2, 0] else p))"
  using conv
  by (simp add: remove_background_def remove_background_loop_rgba [OF bands] Let_def)

text \<open>
  With the default white and tolerance 30: the pixel (250, 250, 250) becomes transparent,
  the pixel (200, 200, 200) is kept.
\<close>

theorem remove_background_keys_out_reference_color_witness:
  "\<exists>out. remove_background sample_env sample_image default_bg_color default_tolerance = Inr out
     \<and> mode out = ''RGBA''
     \<and> pixels out ! 0 = [250, 250, 250, 0]
     \<and> pixels out ! 1 = [200, 200, 200, 255]"
proof -
  have conv: "pil_convert sample_env sample_image ''RGBA'' = Inr sample_rgba"
    by (simp add: sample_env_def sample_convert_def sample_image_def sample_rgba_def)
  have bands: "\<forall>p \<in> set (pixels sample_rgba). length p = 4"
    by (simp add: sample_rgba_def)
  from remove_background_keys_out_reference_color [OF conv bands, of 255 255 255 30]
  obtain out where
    res: "remove_background sample_env sample_image (255, 255, 255) 30 = Inr out"
    and shape: "out = sample_rgba\<lparr>pixels := pixels out\<rparr>"
    and px: "\<forall>i < length (pixels sample_rgba). pixels out ! i =
               (let p = pixels sample_rgba ! i
                in if \<bar>p ! 0 - 255\<bar> < 30 \<and> \<bar>p ! 1 - 255\<bar> < 30 \<and> \<bar>p ! 2 - 255\<bar> < 30
                   then [p ! 0, p ! 1, p ! 2, 0] else p)"
    by blast
  have m: "mode out = ''RGBA''"
    by (subst shape) (simp add: sample_rgba_def)
  from px have "pixels out ! 0 = [250, 250, 250, 0]" and "pixels out ! 1 = [200, 200, 200, 255]"
    by (simp_all add: sample_rgba_def)
  with res m show ?thesis
    by (simp add: default_bg_color_def default_tolerance_def)
qed

section \<open>The format table\<close>

text \<open>
  C3. With a name that \<^verbatim>\<open>FORMAT_MAPPING\<close> does not hold, line 394 does not raise and
  \<^verbatim>\<open>convert_file\<close> goes on with the encoder \<^verbatim>\<open>JPEG\<close> and the extension
  \<^verbatim>\<open>.jpg\<close>: a raster source that opens, is brought to RGB and is encoded by the JPEG
  encoder at quality 100 ends as the file \<^verbatim>\<open>output_folder / (stem + ".jpg")\<close> holding
  the bytes of that encoder, with the count 1; every raster source is handed to
  \<^verbatim>\<open>convert_image_file\<close> with \<^verbatim>\<open>JPEG\<close> and \<^verbatim>\<open>.jpg\<close>, every PDF to
  \<^verbatim>\<open>convert_pdf_file\<close> with \<^verbatim>\<open>JPEG\<close> and \<^verbatim>\<open>.jpg\<close>, and a document source is
  refused as a conversion to \<^verbatim>\<open>JPEG\<close>.
\<close>

theorem unregistered_format_gives_jpeg_output:
  assumes absent: "FORMAT_MAPPING name = None"
  shows "(lower (suffix file_path) \<noteq> ''.pdf''
            \<and> lower (suffix file_path) \<notin> set [''.doc'', ''.docx'', ''.xlsx'', ''.xls'', ''.csv'']
            \<and> Image_open env w (str_path file_path) = Inr img0
            \<and> (if mode img0 \<noteq> ''RGB'' then pil_convert env img0 ''RGB'' else Inr img0) = Inr img
            \<and> pil_encode env img ''JPEG'' (Quality 100) = Inr content
            \<and> os_write_error env (files w) (joinpath output_folder (stem file_path @ ''.jpg''))
                = None
          \<longrightarrow> convert_file env w file_path output_folder name =
                (log_add (Info_converted_image (str_path file_path)
                            (joinpath output_folder (stem file_path @ ''.jpg'')))
                   (w\<lparr>files := (files w)
                        (joinpath output_folder (stem file_path @ ''.jpg'') \<mapsto> content)\<rparr>),
                 Inr 1))
       \<and> (lower (suffix file_path) \<noteq> ''.pdf''
            \<and> lower (suffix file_path) \<notin> set [''.doc'', ''.docx'', ''.xlsx'', ''.xls'', ''.csv'']
          \<longrightarrow> convert_file env w file_path output_folder name =
                (case convert_image_file env w file_path output_folder ''JPEG'' ''.jpg'' of
                   (w1, Inl e) \<Rightarrow> (w1, Inl e)
                 | (w1, Inr u) \<Rightarrow> (w1, Inr 1)))
       \<and> (lower (suffix file_path) = ''.pdf''
          \<longrightarrow> convert_file env w file_path output_folder name =
                convert_pdf_file env w file_path output_folder ''JPEG'' ''.jpg'')
       \<and> (lower (suffix file_path) \<in> set [''.doc'', ''.docx'', ''.xlsx'', ''.xls'', ''.csv'']
          \<longrightarrow> convert_file env w file_path output_folder name =
                (w, Inl (ValueError (''Cannot convert document file '' @ str_path file_path
                                      @ '' to JPEG format.''))))"
proof -
  have resolved: "dict_get FORMAT_MAPPING name (''JPEG'', ''.jpg'') = (''JPEG'', ''.jpg'')"
    using absent by (simp add: dict_get_def)
  have jpeg: "''JPEG'' \<notin> set [''EXCEL'', ''WORD'', ''CSV'']"
    by simp
  have raster: "convert_file env w file_path output_folder name =
      (case convert_image_file env w file_path output_folder ''JPEG'' ''.jpg'' of
         (w1, Inl e) \<Rightarrow> (w1, Inl e)
       | (w1, Inr u) \<Rightarrow> (w1, Inr 1))"
    if "lower (suffix file_path) \<noteq> ''.pdf''"
      and "lower (suffix file_path) \<notin> set [''.doc'', ''.docx'', ''.xlsx'', ''.xls'', ''.csv'']"
    using that jpeg
    by (simp add: convert_file_def resolved del: set_simps split: prod.splits sum.splits)
  have written: "convert_image_file env w file_path output_folder ''JPEG'' ''.jpg'' =
      (log_add (Info_converted_image (str_path file_path)
                  (joinpath output_folder (stem file_path @ ''.jpg'')))
         (w\<lparr>files := (files w)
              (joinpath output_folder (stem file_path @ ''.jpg'') \<mapsto> content)\<rparr>),
       Inr ())"
    if "Image_open env w (str_path file_path) = Inr img0"
      and "(if mode img0 \<noteq> ''RGB'' then pil_convert env img0 ''RGB'' else Inr img0) = Inr img"
      and "pil_encode env img ''JPEG'' (Quality 100) = Inr content"
      and "os_write_error env (files w) (joinpath output_folder (stem file_path @ ''.jpg''))
            = None"
    using that
    by (simp add: convert_image_file_def convert_image_file_mode_def
          convert_image_file_save_def Image_save_def write_file_def Let_def)
  have pdf: "convert_file env w file_path output_folder name =
      convert_pdf_file env w file_path output_folder ''JPEG'' ''.jpg''"
    if "lower (suffix file_path) = ''.pdf''"
    using that by (simp add: convert_file_def resolved)
  have document: "convert_file env w file_path output_folder name =
      (w, Inl (ValueError (''Cannot convert document file '' @ str_path file_path
                            @ '' to JPEG format.'')))"
    if "lower (suffix file_path) \<in> set [''.doc'', ''.docx'', ''.xlsx'', ''.xls'', ''.csv'']"
  proof -
    from that have "lower (suffix file_path) \<noteq> ''.pdf''"
      by auto
    with that jpeg show ?thesis
      by (simp add: convert_file_def resolved del: set_simps)
  qed
  show ?thesis
  proof (intro conjI impI)
    assume h: "lower (suffix file_path) \<noteq> ''.pdf''
      \<and> lower (suffix file_path) \<notin> set [''.doc'', ''.docx'', ''.xlsx'', ''.xls'', ''.csv'']
      \<and> Image_open env w (str_path file_path) = Inr img0
      \<and> (if mode img0 \<noteq> ''RGB'' then pil_convert env img0 ''RGB'' else Inr img0) = Inr img
      \<and> pil_encode env img ''JPEG'' (Quality 100) = Inr content
      \<and> os_write_error env (files w) (joinpath output_folder (stem file_path @ ''.jpg'')) = None"
    then have "convert_image_file env w file_path output_folder ''JPEG'' ''.jpg'' =
      (log_add (Info_converted_image (str_path file_path)
                  (joinpath output_folder (stem file_path @ ''.jpg'')))
         (w\<lparr>files := (files w)
              (joinpath output_folder (stem file_path @ ''.jpg'') \<mapsto> content)\<rparr>),
       Inr ())"
      by (intro written) simp_all
    moreover from h have "convert_file env w file_path output_folder name =
      (case convert_image_file env w file_path output_folder ''JPEG'' ''.jpg'' of
         (w1, Inl e) \<Rightarrow> (w1, Inl e)
       | (w1, Inr u) \<Rightarrow> (w1, Inr 1))"
      by (intro raster) simp_all
    ultimately show "convert_file env w file_path output_folder name =
                (log_add (Info_converted_image (str_path file_path)
                            (joinpath output_folder (stem file_path @ ''.jpg'')))
                   (w\<lparr>files := (files w)
                        (joinpath output_folder (stem file_path @ ''.jpg'') \<mapsto> content)\<rparr>),
                 Inr 1)"
      by simp
  next
    assume "lower (suffix file_path) \<noteq> ''.pdf''
      \<and> lower (suffix file_path) \<notin> set [''.doc'', ''.docx'', ''.xlsx'', ''.xls'', ''.csv'']"
    then show "convert_file env w file_path output_folder name =
      (case convert_image_file env w file_path output_folder ''JPEG'' ''.jpg'' of
         (w1, Inl e) \<Rightarrow> (w1, Inl e)
       | (w1, Inr u) \<Rightarrow> (w1, Inr 1))"
      by (intro raster) simp_all
  next
    assume "lower (suffix file_path) = ''.pdf''"
    then show "convert_file env w file_path output_folder name =
      convert_pdf_file env w file_path output_folder ''JPEG'' ''.jpg''"
      by (rule pdf)
  next
    assume "lower (suffix file_path) \<in> set [''.doc'', ''.docx'', ''.xlsx'', ''.xls'', ''.csv'']"
    then show "convert_file env w file_path output_folder name =
      (w, Inl (ValueError (''Cannot convert document file '' @ str_path file_path
                            @ '' to JPEG format.'')))"
      by (rule document)
  qed
qed

text \<open>
  The name \<^verbatim>\<open>AVIF\<close> is not in the table: the PNG of the concrete world becomes
  \<^verbatim>\<open>/out/photo.jpg\<close> with the bytes of the JPEG encoder, the PDF is rasterized as JPEG,
  and the CSV file is refused as a conversion to JPEG.
\<close>

theorem unregistered_format_gives_jpeg_output_witness:
  "FORMAT_MAPPING ''AVIF'' = None
   \<and> snd (convert_file sample_env sample_world photo_png ''/out'' ''AVIF'') = Inr 1
   \<and> files (fst (convert_file sample_env sample_world photo_png ''/out'' ''AVIF''))
        ''/out/photo.jpg'' = Some ''JPEG:RGB''
   \<and> convert_file sample_env sample_world photo_png ''/out'' ''AVIF'' =
       (case convert_image_file sample_env sample_world photo_png ''/out'' ''JPEG'' ''.jpg'' of
          (w1, Inl e) \<Rightarrow> (w1, Inl e)
        | (w1, Inr u) \<Rightarrow> (w1, Inr 1))
   \<and> convert_file sample_env sample_world scan_pdf ''/out'' ''AVIF'' =
       convert_pdf_file sample_env sample_world scan_pdf ''/out'' ''JPEG'' ''.jpg''
   \<and> convert_file sample_env sample_world table_csv ''/out'' ''AVIF'' =
       (sample_world,
        Inl (ValueError ''Cannot convert document file /in/table.csv to JPEG format.''))"
proof -
  have absent: "FORMAT_MAPPING ''AVIF'' = None"
    by (simp add: FORMAT_MAPPING_def)
  note jpeg = unregistered_format_gives_jpeg_output [OF absent]
  have png: "lower (suffix photo_png) = ''.png''" and pdf: "lower (suffix scan_pdf) = ''.pdf''"
    and csv: "lower (suffix table_csv) = ''.csv''"
    by code_simp+
  have paths: "str_path photo_png = ''/in/photo.png''" "str_path table_csv = ''/in/table.csv''"
    "joinpath ''/out'' (stem photo_png @ ''.jpg'') = ''/out/photo.jpg''"
    by (simp_all add: str_path_def joinpath_def photo_png_def table_csv_def)
  have raster: "lower (suffix photo_png) \<noteq> ''.pdf''
      \<and> lower (suffix photo_png) \<notin> set [''.doc'', ''.docx'', ''.xlsx'', ''.xls'', ''.csv'']"
    by (simp add: png)
  have photo: "lower (suffix photo_png) \<noteq> ''.pdf''
      \<and> lower (suffix photo_png) \<notin> set [''.doc'', ''.docx'', ''.xlsx'', ''.xls'', ''.csv'']
      \<and> Image_open sample_env sample_world (str_path photo_png) = Inr sample_image
      \<and> (if mode sample_image \<noteq> ''RGB'' then pil_convert sample_env sample_image ''RGB''
          else Inr sample_image) = Inr sample_image
      \<and> pil_encode sample_env sample_image ''JPEG'' (Quality 100) = Inr ''JPEG:RGB''
      \<and> os_write_error sample_env (files sample_world)
           (joinpath ''/out'' (stem photo_png @ ''.jpg'')) = None"
    by (simp add: png paths Image_open_def sample_world_def sample_env_def sample_encode_def
          sample_image_def)
  have document: "lower (suffix table_csv) \<in> set [''.doc'', ''.docx'', ''.xlsx'', ''.xls'', ''.csv'']"
    by (simp add: csv)
  from jpeg [of photo_png sample_env sample_world sample_image sample_image "''JPEG:RGB''" "''/out''",
             THEN conjunct1, rule_format, OF photo]
  have first: "convert_file sample_env sample_world photo_png ''/out'' ''AVIF'' =
      (log_add (Info_converted_image ''/in/photo.png'' ''/out/photo.jpg'')
         (sample_world\<lparr>files := (files sample_world)(''/out/photo.jpg'' \<mapsto> ''JPEG:RGB'')\<rparr>),
       Inr 1)"
    by (simp only: paths)
  from jpeg [of photo_png sample_env sample_world _ _ _ "''/out''",
             THEN conjunct2, THEN conjunct1, rule_format, OF raster]
  have second: "convert_file sample_env sample_world photo_png ''/out'' ''AVIF'' =
       (case convert_image_file sample_env sample_world photo_png ''/out'' ''JPEG'' ''.jpg'' of
          (w1, Inl e) \<Rightarrow> (w1, Inl e)
        | (w1, Inr u) \<Rightarrow> (w1, Inr 1))" .
  from jpeg [of scan_pdf sample_env sample_world _ _ _ "''/out''",
             THEN conjunct2, THEN conjunct2, THEN conjunct1, rule_format, OF pdf]
  have third: "convert_file sample_env sample_world scan_pdf ''/out'' ''AVIF'' =
       convert_pdf_file sample_env sample_world scan_pdf ''/out'' ''JPEG'' ''.jpg''" .
  from jpeg [of table_csv sample_env sample_world _ _ _ "''/out''",
             THEN conjunct2, THEN conjunct2, THEN conjunct2, rule_format, OF document]
  have fourth: "convert_file sample_env sample_world table_csv ''/out'' ''AVIF'' =
       (sample_world,
        Inl (ValueError ''Cannot convert document file /in/table.csv to JPEG format.''))"
    by (simp add: paths)
  from first have "snd (convert_file sample_env sample_world photo_png ''/out'' ''AVIF'') = Inr 1"
    and "files (fst (convert_file sample_env sample_world photo_png ''/out'' ''AVIF''))
        ''/out/photo.jpg'' = Some ''JPEG:RGB''"
    by (simp_all add: log_add_def)
  with absent second third fourth show ?thesis
    by (intro conjI)
qed

section \<open>The dispatcher\<close>

text \<open>
  C4. A document source (\<^verbatim>\<open>.doc .docx .xlsx .xls .csv\<close>, in any letter case) with a
  target outside EXCEL, WORD, CSV raises \<^verbatim>\<open>ValueError\<close>, and a source that is neither
  a PDF nor a document with a target among EXCEL, WORD, CSV raises \<^verbatim>\<open>ValueError\<close>;
  in both cases the world that \<^verbatim>\<open>convert_file\<close> leaves is the world it was given,
  whatever the libraries and the file system are: nothing was read, written or logged.
\<close>

theorem cross_family_rejected_before_io:
  "(lower (suffix file_path) \<in> set [''.doc'', ''.docx'', ''.xlsx'', ''.xls'', ''.csv'']
      \<and> fst (dict_get FORMAT_MAPPING selected_format (''JPEG'', ''.jpg''))
            \<notin> set [''EXCEL'', ''WORD'', ''CSV'']
    \<longrightarrow> convert_file env w file_path output_folder selected_format =
          (w, Inl (ValueError (''Cannot convert document file '' @ str_path file_path @ '' to ''
                     @ fst (dict_get FORMAT_MAPPING selected_format (''JPEG'', ''.jpg''))
                     @ '' format.''))))
   \<and> (lower (suffix file_path) \<noteq> ''.pdf''
      \<and> lower (suffix file_path) \<notin> set [''.doc'', ''.docx'', ''.xlsx'', ''.xls'', ''.csv'']
      \<and> fst (dict_get FORMAT_MAPPING selected_format (''JPEG'', ''.jpg''))
            \<in> set [''EXCEL'', ''WORD'', ''CSV'']
    \<longrightarrow> convert_file env w file_path output_folder selected_format =
          (w, Inl (ValueError (''Cannot convert image file '' @ str_path file_path @ '' to ''
                     @ fst (dict_get FORMAT_MAPPING selected_format (''JPEG'', ''.jpg''))
                     @ '' format.''))))"
proof (cases "dict_get FORMAT_MAPPING selected_format (''JPEG'', ''.jpg'')")
  case (Pair output_format ext_out)
  show ?thesis
    unfolding convert_file_def Pair by (auto simp: Let_def)
qed

theorem cross_family_rejected_before_io_witness:
  "convert_file sample_env sample_world report_docx ''/out'' ''JPEG'' =
     (sample_world,
      Inl (ValueError ''Cannot convert document file /in/report.docx to JPEG format.''))
   \<and> convert_file sample_env sample_world photo_png ''/out'' ''EXCEL'' =
     (sample_world,
      Inl (ValueError ''Cannot convert image file /in/photo.png to EXCEL format.''))"
proof -
  have jpeg: "dict_get FORMAT_MAPPING ''JPEG'' (''JPEG'', ''.jpg'') = (''JPEG'', ''.jpg'')"
    and excel: "dict_get FORMAT_MAPPING ''EXCEL'' (''JPEG'', ''.jpg'') = (''EXCEL'', ''.xlsx'')"
    by (simp_all add: dict_get_def FORMAT_MAPPING_def)
  have docx: "lower (suffix report_docx) = ''.docx''"
    and png: "lower (suffix photo_png) = ''.png''"
    by code_simp+
  have doc_to_image:
    "lower (suffix report_docx) \<in> set [''.doc'', ''.docx'', ''.xlsx'', ''.xls'', ''.csv'']
     \<and> fst (dict_get FORMAT_MAPPING ''JPEG'' (''JPEG'', ''.jpg''))
           \<notin> set [''EXCEL'', ''WORD'', ''CSV'']"
    by (simp add: docx jpeg)
  have image_to_doc:
    "lower (suffix photo_png) \<noteq> ''.pdf''
     \<and> lower (suffix photo_png) \<notin> set [''.doc'', ''.docx'', ''.xlsx'', ''.xls'', ''.csv'']
     \<and> fst (dict_get FORMAT_MAPPING ''EXCEL'' (''JPEG'', ''.jpg''))
           \<in> set [''EXCEL'', ''WORD'', ''CSV'']"
    by (simp add: png excel)
  have paths: "str_path report_docx = ''/in/report.docx''" "str_path photo_png = ''/in/photo.png''"
    by (simp_all add: str_path_def report_docx_def photo_png_def)
  from cross_family_rejected_before_io
         [of report_docx "''JPEG''" sample_env sample_world "''/out''",
          THEN conjunct1, rule_format, OF doc_to_image]
       cross_family_rejected_before_io
         [of photo_png "''EXCEL''" sample_env sample_world "''/out''",
          THEN conjunct2, rule_format, OF image_to_doc]
  show ?thesis
    by (simp add: jpeg excel paths)
qed

section \<open>PDF pages\<close>

















section \<open>Raster images and PDF pages take the same encoder\<close>



section \<open>The batch loop\<close>

lemma convert_files_loop_append:
  "convert_files_loop env w output_folder selected_format (xs @ ys) count errors =
     (case convert_files_loop env w output_folder selected_format xs count errors of
        (w1, count1, errors1) \<Rightarrow>
          convert_files_loop env w1 output_folder selected_format ys count1 errors1)"
proof (induction xs arbitrary: w count errors)
  case Nil
  show ?case by simp
next
  case (Cons x xs)
  show ?case
    by (cases "convert_file env w x output_folder selected_format")
       (simp add: Cons.IH split: sum.splits)
qed

text \<open>
  C5, as the code has it. \<^verbatim>\<open>convert_file\<close> raises and the loop of
  \<^verbatim>\<open>convert_files\<close> catches. Out of \<^verbatim>\<open>convert_file\<close> come the \<^verbatim>\<open>ValueError\<close> of
  a document source with a target outside EXCEL, WORD, CSV and of a raster source with a
  target among them, and, for a raster source with a raster target, the exception of the
  image that does not open or decode, of the mode conversion of line 311, and, when the
  target is not SVG, of the encoder and of the write of the output file. When the file
  \<open>bad\<close> raises \<open>e\<close> after the files \<open>xs\<close>, the batch goes on with the files
  \<open>ys\<close> behind it: the exception is logged and appended to the errors with its file,
  and the count is the one reached after \<open>xs\<close>.
\<close>

theorem convert_file_raises_and_convert_files_catches:
  assumes target: "dict_get FORMAT_MAPPING selected_format (''JPEG'', ''.jpg'') = (output_format, ext_out)"
  shows "(lower (suffix file_path) \<in> set [''.doc'', ''.docx'', ''.xlsx'', ''.xls'', ''.csv'']
            \<and> output_format \<notin> set [''EXCEL'', ''WORD'', ''CSV'']
          \<longrightarrow> snd (convert_file env w file_path output_folder selected_format) =
                Inl (ValueError (''Cannot convert document file '' @ str_path file_path
                                  @ '' to '' @ output_format @ '' format.'')))
       \<and> (lower (suffix file_path) \<noteq> ''.pdf''
            \<and> lower (suffix file_path) \<notin> set [''.doc'', ''.docx'', ''.xlsx'', ''.xls'', ''.csv'']
            \<and> output_format \<in> set [''EXCEL'', ''WORD'', ''CSV'']
          \<longrightarrow> snd (convert_file env w file_path output_folder selected_format) =
                Inl (ValueError (''Cannot convert image file '' @ str_path file_path
                                  @ '' to '' @ output_format @ '' format.'')))
       \<and> (lower (suffix file_path) \<noteq> ''.pdf''
            \<and> lower (suffix file_path) \<notin> set [''.doc'', ''.docx'', ''.xlsx'', ''.xls'', ''.csv'']
            \<and> output_format \<notin> set [''EXCEL'', ''WORD'', ''CSV'']
            \<and> Image_open env w (str_path file_path) = Inl e
          \<longrightarrow> snd (convert_file env w file_path output_folder selected_format) = Inl e)
       \<and> (lower (suffix file_path) \<noteq> ''.pdf''
            \<and> lower (suffix file_path) \<notin> set [''.doc'', ''.docx'', ''.xlsx'', ''.xls'', ''.csv'']
            \<and> output_format \<notin> set [''EXCEL'', ''WORD'', ''CSV'']
            \<and> Image_open env w (str_path file_path) = Inr img0
            \<and> output_format \<in> set [''JPEG'', ''JPEG2000'', ''HEIC''] \<and> mode img0 \<noteq> ''RGB''
            \<and> pil_convert env img0 ''RGB'' = Inl e
          \<longrightarrow> snd (convert_file env w file_path output_folder selected_format) = Inl e)
       \<and> (lower (suffix file_path) \<noteq> ''.pdf''
            \<and> lower (suffix file_path) \<notin> set [''.doc'', ''.docx'', ''.xlsx'', ''.xls'', ''.csv'']
            \<and> output_format \<notin> set [''EXCEL'', ''WORD'', ''CSV'']
            \<and> Image_open env w (str_path file_path) = Inr img0
            \<and> convert_image_file_mode env output_format img0 = Inr img
            \<and> output_format \<noteq> ''SVG''
            \<and> pil_encode env img output_format
                 (if output_format = ''JPEG'' then Quality 100
                  else if output_format = ''PDF'' then
                    Resolution (fst (case dpi img of None \<Rightarrow> (300, 300) | Some d \<Rightarrow> d))
                  else NoOpts) = Inl e
          \<longrightarrow> snd (convert_file env w file_path output_folder selected_format) = Inl e)
       \<and> (lower (suffix file_path) \<noteq> ''.pdf''
            \<and> lower (suffix file_path) \<notin> set [''.doc'', ''.docx'', ''.xlsx'', ''.xls'', ''.csv'']
            \<and> output_format \<notin> set [''EXCEL'', ''WORD'', ''CSV'']
            \<and> Image_open env w (str_path file_path) = Inr img0
            \<and> convert_image_file_mode env output_format img0 = Inr img
            \<and> output_format \<noteq> ''SVG''
            \<and> pil_encode env img output_format
                 (if output_format = ''JPEG'' then Quality 100
                  else if output_format = ''PDF'' then
                    Resolution (fst (case dpi img of None \<Rightarrow> (300, 300) | Some d \<Rightarrow> d))
                  else NoOpts) = Inr content
            \<and> os_write_error env (files w)
                 (joinpath output_folder (stem file_path @ ext_out)) = Some e
          \<longrightarrow> snd (convert_file env w file_path output_folder selected_format) = Inl e)
       \<and> (convert_files env w xs output_folder format_var = (w1, count1, errors1)
            \<and> convert_file env w1 bad output_folder (upper format_var) = (w2, Inl e)
          \<longrightarrow> convert_files env w (xs @ bad # ys) output_folder format_var =
                convert_files_loop env (log_add (Error_converting (str_path bad) e) w2)
                  output_folder (upper format_var) ys count1
                  (errors1 @ [(str_path bad, e)]))"
proof -
  let ?opts = "\<lambda>img. if output_format = ''JPEG'' then Quality 100
      else if output_format = ''PDF'' then
        Resolution (fst (case dpi img of None \<Rightarrow> (300, 300) | Some d \<Rightarrow> d))
      else NoOpts"
  have raster: "snd (convert_file env w file_path output_folder selected_format)
      = (case snd (convert_image_file env w file_path output_folder output_format ext_out) of
           Inl e \<Rightarrow> Inl e | Inr u \<Rightarrow> Inr 1)"
    if "lower (suffix file_path) \<noteq> ''.pdf''"
      and "lower (suffix file_path) \<notin> set [''.doc'', ''.docx'', ''.xlsx'', ''.xls'', ''.csv'']"
      and "output_format \<notin> set [''EXCEL'', ''WORD'', ''CSV'']"
    using that
    by (simp add: convert_file_def target del: set_simps split: prod.splits sum.splits)
  have save: "convert_image_file_save env w img name output_format
      = Image_save env w img name output_format (?opts img)"
    if "output_format \<noteq> ''SVG''" for img name
    using that by (simp add: convert_image_file_save_def Let_def)
  have a1: "snd (convert_file env w file_path output_folder selected_format) =
      Inl (ValueError (''Cannot convert document file '' @ str_path file_path
                        @ '' to '' @ output_format @ '' format.''))"
    if doc: "lower (suffix file_path) \<in> set [''.doc'', ''.docx'', ''.xlsx'', ''.xls'', ''.csv'']"
      and "output_format \<notin> set [''EXCEL'', ''WORD'', ''CSV'']"
  proof -
    from doc have "lower (suffix file_path) \<noteq> ''.pdf''"
      by auto
    with that show ?thesis
      by (simp add: convert_file_def target del: set_simps)
  qed
  have a2: "snd (convert_file env w file_path output_folder selected_format) =
      Inl (ValueError (''Cannot convert image file '' @ str_path file_path
                        @ '' to '' @ output_format @ '' format.''))"
    if "lower (suffix file_path) \<noteq> ''.pdf''"
      and "lower (suffix file_path) \<notin> set [''.doc'', ''.docx'', ''.xlsx'', ''.xls'', ''.csv'']"
      and "output_format \<in> set [''EXCEL'', ''WORD'', ''CSV'']"
    using that by (simp add: convert_file_def target del: set_simps)
  have b1: "snd (convert_image_file env w file_path output_folder output_format ext_out) = Inl e"
    if "Image_open env w (str_path file_path) = Inl e"
    using that by (simp add: convert_image_file_def)
  have b2: "snd (convert_image_file env w file_path output_folder output_format ext_out) = Inl e"
    if "Image_open env w (str_path file_path) = Inr img0"
      and "output_format \<in> set [''JPEG'', ''JPEG2000'', ''HEIC'']" and "mode img0 \<noteq> ''RGB''"
      and "pil_convert env img0 ''RGB'' = Inl e"
    using that by (simp add: convert_image_file_def convert_image_file_mode_def del: set_simps)
  have b3: "snd (convert_image_file env w file_path output_folder output_format ext_out) = Inl e"
    if "Image_open env w (str_path file_path) = Inr img0"
      and "convert_image_file_mode env output_format img0 = Inr img"
      and svg: "output_format \<noteq> ''SVG''"
      and "pil_encode env img output_format (?opts img) = Inl e"
    using that by (simp add: convert_image_file_def save [OF svg] Image_save_def Let_def)
  have b4: "snd (convert_image_file env w file_path output_folder output_format ext_out) = Inl e"
    if "Image_open env w (str_path file_path) = Inr img0"
      and "convert_image_file_mode env output_format img0 = Inr img"
      and svg: "output_format \<noteq> ''SVG''"
      and "pil_encode env img output_format (?opts img) = Inr content"
      and "os_write_error env (files w) (joinpath output_folder (stem file_path @ ext_out)) = Some e"
    using that
    by (simp add: convert_image_file_def save [OF svg] Image_save_def write_file_def Let_def)
  have c: "convert_files env w (xs @ bad # ys) output_folder format_var =
      convert_files_loop env (log_add (Error_converting (str_path bad) e) w2)
        output_folder (upper format_var) ys count1 (errors1 @ [(str_path bad, e)])"
    if "convert_files env w xs output_folder format_var = (w1, count1, errors1)"
      and "convert_file env w1 bad output_folder (upper format_var) = (w2, Inl e)"
    using that by (simp add: convert_files_def convert_files_loop_append)
  show ?thesis
  proof (intro conjI impI)
    assume "lower (suffix file_path) \<in> set [''.doc'', ''.docx'', ''.xlsx'', ''.xls'', ''.csv'']
        \<and> output_format \<notin> set [''EXCEL'', ''WORD'', ''CSV'']"
    then show "snd (convert_file env w file_path output_folder selected_format) =
      Inl (ValueError (''Cannot convert document file '' @ str_path file_path
                        @ '' to '' @ output_format @ '' format.''))"
      by (intro a1) simp_all
  next
    assume "lower (suffix file_path) \<noteq> ''.pdf''
        \<and> lower (suffix file_path) \<notin> set [''.doc'', ''.docx'', ''.xlsx'', ''.xls'', ''.csv'']
        \<and> output_format \<in> set [''EXCEL'', ''WORD'', ''CSV'']"
    then show "snd (convert_file env w file_path output_folder selected_format) =
      Inl (ValueError (''Cannot convert image file '' @ str_path file_path
                        @ '' to '' @ output_format @ '' format.''))"
      by (intro a2) simp_all
  next
    assume h: "lower (suffix file_path) \<noteq> ''.pdf''
        \<and> lower (suffix file_path) \<notin> set [''.doc'', ''.docx'', ''.xlsx'', ''.xls'', ''.csv'']
        \<and> output_format \<notin> set [''EXCEL'', ''WORD'', ''CSV'']
        \<and> Image_open env w (str_path file_path) = Inl e"
    then have "snd (convert_image_file env w file_path output_folder output_format ext_out) = Inl e"
      by (intro b1) simp
    with h raster show "snd (convert_file env w file_path output_folder selected_format) = Inl e"
      by simp
  next
    assume h: "lower (suffix file_path) \<noteq> ''.pdf''
        \<and> lower (suffix file_path) \<notin> set [''.doc'', ''.docx'', ''.xlsx'', ''.xls'', ''.csv'']
        \<and> output_format \<notin> set [''EXCEL'', ''WORD'', ''CSV'']
        \<and> Image_open env w (str_path file_path) = Inr img0
        \<and> output_format \<in> set [''JPEG'', ''JPEG2000'', ''HEIC''] \<and> mode img0 \<noteq> ''RGB''
        \<and> pil_convert env img0 ''RGB'' = Inl e"
    then have "snd (convert_image_file env w file_path output_folder output_format ext_out) = Inl e"
      by (intro b2) simp_all
    with h raster show "snd (convert_file env w file_path output_folder selected_format) = Inl e"
      by simp
  next
    assume h: "lower (suffix file_path) \<noteq> ''.pdf''
        \<and> lower (suffix file_path) \<notin> set [''.doc'', ''.docx'', ''.xlsx'', ''.xls'', ''.csv'']
        \<and> output_format \<notin> set [''EXCEL'', ''WORD'', ''CSV'']
        \<and> Image_open env w (str_path file_path) = Inr img0
        \<and> convert_image_file_mode env output_format img0 = Inr img
        \<and> output_format \<noteq> ''SVG''
        \<and> pil_encode env img output_format (?opts img) = Inl e"
    then have "snd (convert_image_file env w file_path output_folder output_format ext_out) = Inl e"
      by (intro b3) simp_all
    with h raster show "snd (convert_file env w file_path output_folder selected_format) = Inl e"
      by simp
  next
    assume h: "lower (suffix file_path) \<noteq> ''.pdf''
        \<and> lower (suffix file_path) \<notin> set [''.doc'', ''.docx'', ''.xlsx'', ''.xls'', ''.csv'']
        \<and> output_format \<notin> set [''EXCEL'', ''WORD'', ''CSV'']
        \<and> Image_open env w (str_path file_path) = Inr img0
        \<and> convert_image_file_mode env output_format img0 = Inr img
        \<and> output_format \<noteq> ''SVG''
        \<and> pil_encode env img output_format (?opts img) = Inr content
        \<and> os_write_error env (files w) (joinpath output_folder (stem file_path @ ext_out)) = Some e"
    then have "snd (convert_image_file env w file_path output_folder output_format ext_out) = Inl e"
      by (intro b4) simp_all
    with h raster show "snd (convert_file env w file_path output_folder selected_format) = Inl e"
      by simp
  next
    assume "convert_files env w xs output_folder format_var = (w1, count1, errors1)
        \<and> convert_file env w1 bad output_folder (upper format_var) = (w2, Inl e)"
    then show "convert_files env w (xs @ bad # ys) output_folder format_var =
      convert_files_loop env (log_add (Error_converting (str_path bad) e) w2)
        output_folder (upper format_var) ys count1 (errors1 @ [(str_path bad, e)])"
      by (intro c) simp_all
  qed
qed

text \<open>
  C5 as it is written fails: a PNG with the target EXCEL, and a PNG whose output cannot be
  written, leave \<^verbatim>\<open>convert_file\<close> as exceptions.
\<close>

theorem convert_file_raises_counterexample:
  "snd (convert_file sample_env sample_world photo_png ''/out'' ''EXCEL'') =
     Inl (ValueError ''Cannot convert image file /in/photo.png to EXCEL format.'')
   \<and> snd (convert_file sample_env sample_world photo_png ''/ro'' ''PNG'') =
     Inl (OSError ''Permission denied'')"
proof -
  have excel: "dict_get FORMAT_MAPPING ''EXCEL'' (''JPEG'', ''.jpg'') = (''EXCEL'', ''.xlsx'')"
    and png: "dict_get FORMAT_MAPPING ''PNG'' (''JPEG'', ''.jpg'') = (''PNG'', ''.png'')"
    by (simp_all add: dict_get_def FORMAT_MAPPING_def)
  have ext: "lower (suffix photo_png) = ''.png''"
    by code_simp
  have path: "str_path photo_png = ''/in/photo.png''" and base: "stem photo_png = ''photo''"
    by (simp_all add: str_path_def photo_png_def)
  have "snd (convert_file sample_env sample_world photo_png ''/out'' ''EXCEL'') =
     Inl (ValueError ''Cannot convert image file /in/photo.png to EXCEL format.'')"
    by (simp add: convert_file_def excel ext path)
  moreover have "convert_image_file sample_env sample_world photo_png ''/ro'' ''PNG'' ''.png'' =
     (sample_world, Inl (OSError ''Permission denied''))"
    by (simp add: convert_image_file_def Image_open_def path sample_world_def sample_env_def
          convert_image_file_mode_def convert_image_file_save_def Image_save_def
          sample_encode_def write_file_def joinpath_def base)
  then have "snd (convert_file sample_env sample_world photo_png ''/ro'' ''PNG'') =
     Inl (OSError ''Permission denied'')"
    by (simp add: convert_file_def png ext)
  ultimately show ?thesis by simp
qed

text \<open>
  In the concrete world: a CSV file to PNG and a PNG to CSV are refused, an empty PNG does
  not decode, a CMYK image is not converted to RGB for JPEG, the encoder knows no HEIC,
  and the folder \<^verbatim>\<open>/ro\<close> refuses the PNG; each exception leaves \<^verbatim>\<open>convert_file\<close>. A
  CSV file, a PNG and a Word file with the target \<^verbatim>\<open>csv\<close>: the PNG raises, the Word
  file behind it is still copied, and the batch ends with the count 2 and one error.
\<close>

theorem convert_file_raises_and_convert_files_catches_witness:
  "snd (convert_file sample_env sample_world table_csv ''/out'' ''PNG'') =
     Inl (ValueError ''Cannot convert document file /in/table.csv to PNG format.'')
   \<and> snd (convert_file sample_env sample_world photo_png ''/out'' ''CSV'') =
     Inl (ValueError ''Cannot convert image file /in/photo.png to CSV format.'')
   \<and> snd (convert_file sample_env sample_world broken_png ''/out'' ''PNG'') =
     Inl (OSError ''cannot identify image file'')
   \<and> snd (convert_file sample_env sample_world print_tif ''/out'' ''JPEG'') =
     Inl (ValueError ''conversion not supported'')
   \<and> snd (convert_file sample_env sample_world photo_png ''/out'' ''HEIC'') =
     Inl (KeyError ''HEIC'')
   \<and> snd (convert_file sample_env sample_world photo_png ''/ro'' ''PNG'') =
     Inl (OSError ''Permission denied'')
   \<and> (\<exists>w1 count1 errors1.
        convert_files sample_env sample_world [table_csv] ''/out'' ''csv'' = (w1, count1, errors1)
      \<and> convert_files sample_env sample_world ([table_csv] @ photo_png # [report_docx]) ''/out'' ''csv''
          = convert_files_loop sample_env
              (log_add (Error_converting (str_path photo_png)
                 (ValueError ''Cannot convert image file /in/photo.png to CSV format.'')) w1)
              ''/out'' (upper ''csv'') [report_docx] count1
              (errors1 @ [(str_path photo_png,
                 ValueError ''Cannot convert image file /in/photo.png to CSV format.'')]))
   \<and> snd (convert_files sample_env sample_world [table_csv, photo_png, report_docx] ''/out'' ''csv'')
       = (2, [(''/in/photo.png'',
               ValueError ''Cannot convert image file /in/photo.png to CSV format.'')])"
proof -
  have png: "dict_get FORMAT_MAPPING ''PNG'' (''JPEG'', ''.jpg'') = (''PNG'', ''.png'')"
    and csv: "dict_get FORMAT_MAPPING ''CSV'' (''JPEG'', ''.jpg'') = (''CSV'', ''.csv'')"
    and jpeg: "dict_get FORMAT_MAPPING ''JPEG'' (''JPEG'', ''.jpg'') = (''JPEG'', ''.jpg'')"
    and heic: "dict_get FORMAT_MAPPING ''HEIC'' (''JPEG'', ''.jpg'') = (''HEIC'', ''.heic'')"
    by (simp_all add: dict_get_def FORMAT_MAPPING_def)
  have up: "upper ''csv'' = ''CSV''"
    by code_simp
  have ext: "lower (suffix photo_png) = ''.png''" "lower (suffix table_csv) = ''.csv''"
    "lower (suffix report_docx) = ''.docx''" "lower (suffix broken_png) = ''.png''"
    "lower (suffix print_tif) = ''.tif''"
    by code_simp+
  have path: "str_path photo_png = ''/in/photo.png''" "str_path table_csv = ''/in/table.csv''"
    "str_path broken_png = ''/in/broken.png''" "str_path print_tif = ''/in/print.tif''"
    by (simp_all add: str_path_def photo_png_def table_csv_def broken_png_def print_tif_def)
  have out: "joinpath ''/ro'' (stem photo_png @ ''.png'') = ''/ro/photo.png''"
    by (simp add: joinpath_def photo_png_def)
  have opened: "Image_open sample_env sample_world ''/in/photo.png'' = Inr sample_image"
    "Image_open sample_env sample_world ''/in/broken.png'' = Inl (OSError ''cannot identify image file'')"
    "Image_open sample_env sample_world ''/in/print.tif'' = Inr sample_cmyk"
    by (simp_all add: Image_open_def sample_world_def sample_env_def)
  have cmyk: "mode sample_cmyk \<noteq> ''RGB''"
    "pil_convert sample_env sample_cmyk ''RGB'' = Inl (ValueError ''conversion not supported'')"
    by (simp_all add: sample_cmyk_def sample_env_def sample_convert_def)
  have rgb: "convert_image_file_mode sample_env ''HEIC'' sample_image = Inr sample_image"
    "convert_image_file_mode sample_env ''PNG'' sample_image = Inr sample_image"
    "pil_encode sample_env sample_image ''HEIC'' NoOpts = Inl (KeyError ''HEIC'')"
    "pil_encode sample_env sample_image ''PNG'' NoOpts = Inr ''PNG:RGB''"
    "os_write_error sample_env (files sample_world) ''/ro/photo.png''
       = Some (OSError ''Permission denied'')"
    by (simp_all add: convert_image_file_mode_def sample_image_def sample_env_def
          sample_encode_def)
  have h1: "lower (suffix table_csv) \<in> set [''.doc'', ''.docx'', ''.xlsx'', ''.xls'', ''.csv'']
      \<and> ''PNG'' \<notin> set [''EXCEL'', ''WORD'', ''CSV'']"
    by (simp add: ext)
  have h2: "lower (suffix photo_png) \<noteq> ''.pdf''
      \<and> lower (suffix photo_png) \<notin> set [''.doc'', ''.docx'', ''.xlsx'', ''.xls'', ''.csv'']
      \<and> ''CSV'' \<in> set [''EXCEL'', ''WORD'', ''CSV'']"
    by (simp add: ext)
  have h3: "lower (suffix broken_png) \<noteq> ''.pdf''
      \<and> lower (suffix broken_png) \<notin> set [''.doc'', ''.docx'', ''.xlsx'', ''.xls'', ''.csv'']
      \<and> ''PNG'' \<notin> set [''EXCEL'', ''WORD'', ''CSV'']
      \<and> Image_open sample_env sample_world (str_path broken_png)
          = Inl (OSError ''cannot identify image file'')"
    by (simp add: ext path opened)
  have h4: "lower (suffix print_tif) \<noteq> ''.pdf''
      \<and> lower (suffix print_tif) \<notin> set [''.doc'', ''.docx'', ''.xlsx'', ''.xls'', ''.csv'']
      \<and> ''JPEG'' \<notin> set [''EXCEL'', ''WORD'', ''CSV'']
      \<and> Image_open sample_env sample_world (str_path print_tif) = Inr sample_cmyk
      \<and> ''JPEG'' \<in> set [''JPEG'', ''JPEG2000'', ''HEIC''] \<and> mode sample_cmyk \<noteq> ''RGB''
      \<and> pil_convert sample_env sample_cmyk ''RGB'' = Inl (ValueError ''conversion not supported'')"
    using cmyk by (simp add: ext path opened)
  have h5: "lower (suffix photo_png) \<noteq> ''.pdf''
      \<and> lower (suffix photo_png) \<notin> set [''.doc'', ''.docx'', ''.xlsx'', ''.xls'', ''.csv'']
      \<and> ''HEIC'' \<notin> set [''EXCEL'', ''WORD'', ''CSV'']
      \<and> Image_open sample_env sample_world (str_path photo_png) = Inr sample_image
      \<and> convert_image_file_mode sample_env ''HEIC'' sample_image = Inr sample_image
      \<and> ''HEIC'' \<noteq> ''SVG''
      \<and> pil_encode sample_env sample_image ''HEIC''
           (if ''HEIC'' = ''JPEG'' then Quality 100
            else if ''HEIC'' = ''PDF'' then
              Resolution (fst (case dpi sample_image of None \<Rightarrow> (300, 300) | Some d \<Rightarrow> d))
            else NoOpts) = Inl (KeyError ''HEIC'')"
    using rgb by (simp add: ext path opened)
  have h6: "lower (suffix photo_png) \<noteq> ''.pdf''
      \<and> lower (suffix photo_png) \<notin> set [''.doc'', ''.docx'', ''.xlsx'', ''.xls'', ''.csv'']
      \<and> ''PNG'' \<notin> set [''EXCEL'', ''WORD'', ''CSV'']
      \<and> Image_open sample_env sample_world (str_path photo_png) = Inr sample_image
      \<and> convert_image_file_mode sample_env ''PNG'' sample_image = Inr sample_image
      \<and> ''PNG'' \<noteq> ''SVG''
      \<and> pil_encode sample_env sample_image ''PNG''
           (if ''PNG'' = ''JPEG'' then Quality 100
            else if ''PNG'' = ''PDF'' then
              Resolution (fst (case dpi sample_image of None \<Rightarrow> (300, 300) | Some d \<Rightarrow> d))
            else NoOpts) = Inr ''PNG:RGB''
      \<and> os_write_error sample_env (files sample_world)
           (joinpath ''/ro'' (stem photo_png @ ''.png'')) = Some (OSError ''Permission denied'')"
    using rgb by (simp add: ext path opened out)
  note raises = convert_file_raises_and_convert_files_catches
  from raises [OF png, where env = sample_env and w = sample_world and file_path = table_csv
                 and output_folder = "''/out''", THEN conjunct1, rule_format, OF h1]
  have r1: "snd (convert_file sample_env sample_world table_csv ''/out'' ''PNG'') =
     Inl (ValueError ''Cannot convert document file /in/table.csv to PNG format.'')"
    by (simp add: path)
  from raises [OF csv, where env = sample_env and w = sample_world and file_path = photo_png
                 and output_folder = "''/out''",
               THEN conjunct2, THEN conjunct1, rule_format, OF h2]
  have r2: "snd (convert_file sample_env sample_world photo_png ''/out'' ''CSV'') =
     Inl (ValueError ''Cannot convert image file /in/photo.png to CSV format.'')"
    by (simp add: path)
  from raises [OF png, where env = sample_env and w = sample_world and file_path = broken_png
                 and output_folder = "''/out''",
               THEN conjunct2, THEN conjunct2, THEN conjunct1, rule_format, OF h3]
  have r3: "snd (convert_file sample_env sample_world broken_png ''/out'' ''PNG'') =
     Inl (OSError ''cannot identify image file'')" .
  from raises [OF jpeg, where env = sample_env and w = sample_world and file_path = print_tif
                 and output_folder = "''/out''",
               THEN conjunct2, THEN conjunct2, THEN conjunct2, THEN conjunct1,
               rule_format, OF h4]
  have r4: "snd (convert_file sample_env sample_world print_tif ''/out'' ''JPEG'') =
     Inl (ValueError ''conversion not supported'')" .
  from raises [OF heic, where env = sample_env and w = sample_world and file_path = photo_png
                 and output_folder = "''/out''",
               THEN conjunct2, THEN conjunct2, THEN conjunct2, THEN conjunct2, THEN conjunct1,
               rule_format, OF h5]
  have r5: "snd (convert_file sample_env sample_world photo_png ''/out'' ''HEIC'') =
     Inl (KeyError ''HEIC'')" .
  from raises [OF png, where env = sample_env and w = sample_world and file_path = photo_png
                 and output_folder = "''/ro''",
               THEN conjunct2, THEN conjunct2, THEN conjunct2, THEN conjunct2, THEN conjunct2,
               THEN conjunct1, rule_format, OF h6]
  have r6: "snd (convert_file sample_env sample_world photo_png ''/ro'' ''PNG'') =
     Inl (OSError ''Permission denied'')" .
  obtain w1 count1 errors1 where before:
    "convert_files sample_env sample_world [table_csv] ''/out'' ''csv'' = (w1, count1, errors1)"
    by (meson prod_cases3)
  have raised: "convert_file sample_env w1 photo_png ''/out'' (upper ''csv'') =
       (w1, Inl (ValueError ''Cannot convert image file /in/photo.png to CSV format.''))"
    by (simp add: convert_file_def up csv ext path)
  from before raised have h7:
    "convert_files sample_env sample_world [table_csv] ''/out'' ''csv'' = (w1, count1, errors1)
     \<and> convert_file sample_env w1 photo_png ''/out'' (upper ''csv'') =
         (w1, Inl (ValueError ''Cannot convert image file /in/photo.png to CSV format.''))"
    by simp
  from raises [OF csv, where env = sample_env and ys = "[report_docx]",
               THEN conjunct2, THEN conjunct2, THEN conjunct2, THEN conjunct2, THEN conjunct2,
               THEN conjunct2, rule_format, OF h7] before
  have r7: "\<exists>w1 count1 errors1.
        convert_files sample_env sample_world [table_csv] ''/out'' ''csv'' = (w1, count1, errors1)
      \<and> convert_files sample_env sample_world ([table_csv] @ photo_png # [report_docx]) ''/out'' ''csv''
          = convert_files_loop sample_env
              (log_add (Error_converting (str_path photo_png)
                 (ValueError ''Cannot convert image file /in/photo.png to CSV format.'')) w1)
              ''/out'' (upper ''csv'') [report_docx] count1
              (errors1 @ [(str_path photo_png,
                 ValueError ''Cannot convert image file /in/photo.png to CSV format.'')])"
    by blast
  have r8:
    "snd (convert_files sample_env sample_world [table_csv, photo_png, report_docx] ''/out'' ''csv'')
       = (2, [(''/in/photo.png'',
               ValueError ''Cannot convert image file /in/photo.png to CSV format.'')])"
    by (simp add: convert_files_def up convert_file_def csv ext path split: prod.splits)
  from r1 r2 r3 r4 r5 r6 r7 r8 show ?thesis
    by (intro conjI)
qed

section \<open>Document passthrough\<close>

text \<open>
  C7. A document source with a target among EXCEL, WORD, CSV, whose file exists and
  whose output the operating system lets be written (or is the source itself): the
  dispatcher returns 1, the file \<^verbatim>\<open>output_folder / (stem + extension)\<close> then holds
  the bytes of the source, and no other file has changed.
\<close>

theorem document_is_copied_verbatim:
  assumes doc: "lower (suffix file_path) \<in> set [''.doc'', ''.docx'', ''.xlsx'', ''.xls'', ''.csv'']"
    and target: "dict_get FORMAT_MAPPING selected_format (''JPEG'', ''.jpg'') = (output_format, ext_out)"
    and family: "output_format \<in> set [''EXCEL'', ''WORD'', ''CSV'']"
    and source: "files w (str_path file_path) = Some content"
    and writable: "str_path file_path = joinpath output_folder (stem file_path @ ext_out)
                   \<or> os_write_error env (files w)
                        (joinpath output_folder (stem file_path @ ext_out)) = None"
  shows "\<exists>w1. convert_file env w file_path output_folder selected_format = (w1, Inr 1)
           \<and> files w1 (joinpath output_folder (stem file_path @ ext_out)) = Some content
           \<and> (\<forall>name. name \<noteq> joinpath output_folder (stem file_path @ ext_out)
                 \<longrightarrow> files w1 name = files w name)"
proof -
  from doc have not_pdf: "lower (suffix file_path) \<noteq> ''.pdf''"
    by auto
  let ?out = "joinpath output_folder (stem file_path @ ext_out)"
  let ?w1 = "convert_document_file env w file_path output_folder output_format ext_out"
  have run: "convert_file env w file_path output_folder selected_format = (?w1, Inr 1)"
    using doc not_pdf family by (simp add: convert_file_def target del: set_simps)
  have "files ?w1 ?out = Some content \<and> (\<forall>name. name \<noteq> ?out \<longrightarrow> files ?w1 name = files w name)"
    using source writable
    by (auto simp: convert_document_file_def shutil_copy_def log_add_def Let_def
          split: option.splits)
  with run show ?thesis
    by blast
qed

theorem document_is_copied_verbatim_witness:
  "\<exists>w1. convert_file sample_env sample_world table_csv ''/out'' ''CSV'' = (w1, Inr 1)
     \<and> files w1 ''/out/table.csv'' = Some ''x,y''
     \<and> files w1 ''/in/table.csv'' = Some ''x,y''"
proof -
  have doc: "lower (suffix table_csv) \<in> set [''.doc'', ''.docx'', ''.xlsx'', ''.xls'', ''.csv'']"
    by code_simp
  have target: "dict_get FORMAT_MAPPING ''CSV'' (''JPEG'', ''.jpg'') = (''CSV'', ''.csv'')"
    by (simp add: dict_get_def FORMAT_MAPPING_def)
  have family: "''CSV'' \<in> set [''EXCEL'', ''WORD'', ''CSV'']"
    by simp
  have path: "str_path table_csv = ''/in/table.csv''"
    and out: "joinpath ''/out'' (stem table_csv @ ''.csv'') = ''/out/table.csv''"
    by (simp_all add: str_path_def joinpath_def table_csv_def)
  have source: "files sample_world (str_path table_csv) = Some ''x,y''"
    by (simp add: path sample_world_def)
  have writable: "str_path table_csv = joinpath ''/out'' (stem table_csv @ ''.csv'')
                   \<or> os_write_error sample_env (files sample_world)
                        (joinpath ''/out'' (stem table_csv @ ''.csv'')) = None"
    by (simp add: out sample_env_def)
  from document_is_copied_verbatim [OF doc target family source writable]
  obtain w1 where
    "convert_file sample_env sample_world table_csv ''/out'' ''CSV'' = (w1, Inr 1)"
    "files w1 ''/out/table.csv'' = Some ''x,y''"
    "\<forall>name. name \<noteq> ''/out/table.csv'' \<longrightarrow> files w1 name = files sample_world name"
    unfolding out by blast
  moreover from this have "files w1 ''/in/table.csv'' = Some ''x,y''"
    using source by (simp add: path)
  ultimately show ?thesis
    by blast
qed

text \<open>
  C8. The claim holds the code to its own word: \<^verbatim>\<open>convert_file\<close> returns the number
  of files converted (lines 391--392), the raster path lets a failed write raise and the
  PDF path does not count a failed page. The document path does not keep it: in the
  concrete world the folder \<^verbatim>\<open>/ro\<close> refuses the write, the copy raises, no file
  \<^verbatim>\<open>/ro/table.csv\<close> exists afterwards, \<^verbatim>\<open>convert_document_file\<close> only logs the
  exception, and \<^verbatim>\<open>convert_file\<close> returns 1.
\<close>

theorem failed_copy_is_counted:
  "snd (shutil_copy sample_env sample_world ''/in/table.csv'' ''/ro/table.csv'')
     = Inl (OSError ''Permission denied'')
   \<and> snd (convert_file sample_env sample_world table_csv ''/ro'' ''CSV'') = Inr 1
   \<and> logged (fst (convert_file sample_env sample_world table_csv ''/ro'' ''CSV''))
     = [Error_copying_document ''/in/table.csv'' (OSError ''Permission denied'')]
   \<and> files (fst (convert_file sample_env sample_world table_csv ''/ro'' ''CSV''))
        ''/ro/table.csv'' = None"
proof -
  have doc: "lower (suffix table_csv) = ''.csv''"
    by code_simp
  have target: "dict_get FORMAT_MAPPING ''CSV'' (''JPEG'', ''.jpg'') = (''CSV'', ''.csv'')"
    by (simp add: dict_get_def FORMAT_MAPPING_def)
  have path: "str_path table_csv = ''/in/table.csv''"
    and out: "joinpath ''/ro'' (stem table_csv @ ''.csv'') = ''/ro/table.csv''"
    by (simp_all add: str_path_def joinpath_def table_csv_def)
  have copy: "shutil_copy sample_env sample_world ''/in/table.csv'' ''/ro/table.csv'' =
     (sample_world, Inl (OSError ''Permission denied''))"
    by (simp add: shutil_copy_def sample_env_def sample_world_def)
  then have "convert_file sample_env sample_world table_csv ''/ro'' ''CSV'' =
     (log_add (Error_copying_document ''/in/table.csv'' (OSError ''Permission denied''))
        sample_world, Inr 1)"
    by (simp add: convert_file_def convert_document_file_def doc target path out)
  with copy show ?thesis
    by (simp add: log_add_def sample_world_def)
qed

text \<open>
  The same for every document and every reason of the failure: when the copy raises,
  \<^verbatim>\<open>convert_file\<close> logs the exception and returns 1.
\<close>

lemma failed_copy_returns_one:
  assumes doc: "lower (suffix file_path) \<in> set [''.doc'', ''.docx'', ''.xlsx'', ''.xls'', ''.csv'']"
    and target: "dict_get FORMAT_MAPPING selected_format (''JPEG'', ''.jpg'') = (output_format, ext_out)"
    and family: "output_format \<in> set [''EXCEL'', ''WORD'', ''CSV'']"
    and failed: "shutil_copy env w (str_path file_path)
                   (joinpath output_folder (stem file_path @ ext_out)) = (w1, Inl e)"
  shows "convert_file env w file_path output_folder selected_format =
           (log_add (Error_copying_document (str_path file_path) e) w1, Inr 1)"
proof -
  from doc have not_pdf: "lower (suffix file_path) \<noteq> ''.pdf''"
    by auto
  from failed have "convert_document_file env w file_path output_folder output_format ext_out
      = log_add (Error_copying_document (str_path file_path) e) w1"
    by (simp add: convert_document_file_def Let_def)
  then show ?thesis
    using doc not_pdf family by (simp add: convert_file_def target del: set_simps)
qed

section \<open>SVG export\<close>

lemma save_as_svg_refused:
  assumes keyed: "remove_background env img default_bg_color default_tolerance = Inr img1"
    and png: "pil_encode env img1 ''PNG'' NoOpts = Inr buf"
    and refused: "os_write_error env (files w) name = Some e"
  shows "save_as_svg env w img name = (log_add (Error_saving_svg e) w, Inr ())"
  using assms by (simp add: save_as_svg_def write_file_def Let_def split: prod.splits)

text \<open>
  C9. An image that is keyed and encoded as PNG, and an SVG file that the operating system
  refuses to write: \<^verbatim>\<open>save_as_svg\<close> logs the exception and returns; a single image
  then counts as 1 artifact and gets its "converted" message; a PDF page then gets its
  "converted" message and the loop goes on with the count raised by one. No file changes.
\<close>

theorem svg_write_failure_is_swallowed:
  assumes keyed: "remove_background env img default_bg_color default_tolerance = Inr img1"
    and png: "pil_encode env img1 ''PNG'' NoOpts = Inr buf"
  shows "(os_write_error env (files w) name = Some e
            \<longrightarrow> save_as_svg env w img name = (log_add (Error_saving_svg e) w, Inr ()))
       \<and> (lower (suffix file_path) \<noteq> ''.pdf''
            \<and> lower (suffix file_path) \<notin> set [''.doc'', ''.docx'', ''.xlsx'', ''.xls'', ''.csv'']
            \<and> Image_open env w (str_path file_path) = Inr img
            \<and> os_write_error env (files w)
                 (joinpath output_folder (stem file_path @ ''.svg'')) = Some e
            \<longrightarrow> convert_file env w file_path output_folder ''SVG'' =
                  (log_add (Info_converted_image (str_path file_path)
                              (joinpath output_folder (stem file_path @ ''.svg'')))
                     (log_add (Error_saving_svg e) w), Inr 1))
       \<and> (get_pixmap env page 3 = Inr pix \<and> tobytes env pix ''png'' = Inr img_data
            \<and> pil_decode env img_data = Inr img
            \<and> os_write_error env (files w)
                 (joinpath output_folder (stem file_path @ ''_page'' @ str_nat (i + 1) @ ''.svg''))
                = Some e
            \<longrightarrow> convert_pdf_loop env w file_path output_folder ''SVG'' ''.svg'' i (Inr page # doc) count =
                  convert_pdf_loop env
                    (log_add (Info_converted_pdf_page (i + 1)
                                (joinpath output_folder
                                   (stem file_path @ ''_page'' @ str_nat (i + 1) @ ''.svg'')))
                       (log_add (Error_saving_svg e) w))
                    file_path output_folder ''SVG'' ''.svg'' (i + 1) doc (count + 1))"
proof (intro conjI impI)
  assume "os_write_error env (files w) name = Some e"
  then show "save_as_svg env w img name = (log_add (Error_saving_svg e) w, Inr ())"
    by (rule save_as_svg_refused [OF keyed png])
next
  let ?out = "joinpath output_folder (stem file_path @ ''.svg'')"
  assume h: "lower (suffix file_path) \<noteq> ''.pdf''
      \<and> lower (suffix file_path) \<notin> set [''.doc'', ''.docx'', ''.xlsx'', ''.xls'', ''.csv'']
      \<and> Image_open env w (str_path file_path) = Inr img
      \<and> os_write_error env (files w) ?out = Some e"
  have svg: "dict_get FORMAT_MAPPING ''SVG'' (''JPEG'', ''.jpg'') = (''SVG'', ''.svg'')"
    by (simp add: dict_get_def FORMAT_MAPPING_def)
  have not_doc: "''SVG'' \<notin> set [''EXCEL'', ''WORD'', ''CSV'']"
    by simp
  from h have saved: "save_as_svg env w img ?out = (log_add (Error_saving_svg e) w, Inr ())"
    by (intro save_as_svg_refused [OF keyed png]) simp
  from h have "convert_image_file env w file_path output_folder ''SVG'' ''.svg'' =
      (log_add (Info_converted_image (str_path file_path) ?out) (log_add (Error_saving_svg e) w),
       Inr ())"
    by (simp add: convert_image_file_def convert_image_file_mode_def
          convert_image_file_save_def saved)
  with h show "convert_file env w file_path output_folder ''SVG'' =
      (log_add (Info_converted_image (str_path file_path) ?out) (log_add (Error_saving_svg e) w),
       Inr 1)"
    using not_doc by (simp add: convert_file_def svg del: set_simps)
next
  let ?out = "joinpath output_folder (stem file_path @ ''_page'' @ str_nat (i + 1) @ ''.svg'')"
  assume h: "get_pixmap env page 3 = Inr pix \<and> tobytes env pix ''png'' = Inr img_data
      \<and> pil_decode env img_data = Inr img
      \<and> os_write_error env (files w) ?out = Some e"
  then have saved: "save_as_svg env w img ?out = (log_add (Error_saving_svg e) w, Inr ())"
    by (intro save_as_svg_refused [OF keyed png]) simp
  from h saved
  have "convert_pdf_page env w (stem file_path) output_folder ''SVG'' ''.svg'' i page =
      (log_add (Info_converted_pdf_page (i + 1) ?out) (log_add (Error_saving_svg e) w), Inr ())"
    by (simp add: convert_pdf_page_def convert_pdf_file_mode_def convert_pdf_file_save_def
          Let_def)
  then show "convert_pdf_loop env w file_path output_folder ''SVG'' ''.svg'' i (Inr page # doc) count =
      convert_pdf_loop env
        (log_add (Info_converted_pdf_page (i + 1) ?out) (log_add (Error_saving_svg e) w))
        file_path output_folder ''SVG'' ''.svg'' (i + 1) doc (count + 1)"
    by simp
qed

text \<open>
  In the concrete world the folder \<^verbatim>\<open>/ro\<close> refuses every write: the PNG and the first
  page of the PDF are reported as converted to SVG, and no SVG file exists.
\<close>

theorem svg_write_failure_is_swallowed_witness:
  "save_as_svg sample_env sample_world sample_image ''/ro/photo.svg'' =
     (log_add (Error_saving_svg (OSError ''Permission denied'')) sample_world, Inr ())
   \<and> convert_file sample_env sample_world photo_png ''/ro'' ''SVG'' =
     (log_add (Info_converted_image ''/in/photo.png'' ''/ro/photo.svg'')
        (log_add (Error_saving_svg (OSError ''Permission denied'')) sample_world), Inr 1)
   \<and> convert_pdf_loop sample_env sample_world scan_pdf ''/ro'' ''SVG'' ''.svg'' 0 [Inr CHR ''p''] 0 =
     (log_add (Info_converted_pdf_page 1 ''/ro/scan_page1.svg'')
        (log_add (Error_saving_svg (OSError ''Permission denied'')) sample_world), Inr 1)"
proof -
  let ?e = "OSError ''Permission denied''"
  let ?keyed = "sample_rgba\<lparr>pixels := [[250, 250, 250, 0], [200, 200, 200, 255]]\<rparr>"
  have keyed: "remove_background sample_env sample_image default_bg_color default_tolerance
                 = Inr ?keyed"
    by (simp add: remove_background_def sample_env_def sample_convert_def sample_image_def
          sample_rgba_def is_background_def item_get_def default_bg_color_def
          default_tolerance_def)
  have png: "pil_encode sample_env ?keyed ''PNG'' NoOpts = Inr ''PNG:RGBA''"
    by (simp add: sample_env_def sample_encode_def sample_rgba_def)
  note swallowed = svg_write_failure_is_swallowed [OF keyed png]
  have refused: "os_write_error sample_env (files sample_world) ''/ro/photo.svg'' = Some ?e"
    by (simp add: sample_env_def)
  have ext: "lower (suffix photo_png) = ''.png''"
    by code_simp
  have path: "str_path photo_png = ''/in/photo.png''"
    and out: "joinpath ''/ro'' (stem photo_png @ ''.svg'') = ''/ro/photo.svg''"
    by (simp_all add: str_path_def joinpath_def photo_png_def)
  have opened: "Image_open sample_env sample_world (str_path photo_png) = Inr sample_image"
    by (simp add: path Image_open_def sample_world_def sample_env_def)
  have one: "str_nat (Suc 0) = ''1''"
    by code_simp
  have rendered: "get_pixmap sample_env CHR ''p'' 3 = Inr CHR ''p''
      \<and> tobytes sample_env CHR ''p'' ''png'' = Inr ''p''
      \<and> pil_decode sample_env ''p'' = Inr sample_image
      \<and> os_write_error sample_env (files sample_world)
           (joinpath ''/ro'' (stem scan_pdf @ ''_page'' @ str_nat (0 + 1) @ ''.svg''))
          = Some ?e"
    by (simp add: sample_env_def joinpath_def)
  from swallowed [of sample_world "''/ro/photo.svg''" ?e, THEN conjunct1, rule_format, OF refused]
  have first: "save_as_svg sample_env sample_world sample_image ''/ro/photo.svg'' =
     (log_add (Error_saving_svg ?e) sample_world, Inr ())" .
  from swallowed [of sample_world _ ?e photo_png "''/ro''",
                  THEN conjunct2, THEN conjunct1, rule_format]
       ext opened refused
  have second: "convert_file sample_env sample_world photo_png ''/ro'' ''SVG'' =
     (log_add (Info_converted_image ''/in/photo.png'' ''/ro/photo.svg'')
        (log_add (Error_saving_svg ?e) sample_world), Inr 1)"
    by (simp add: path out)
  from swallowed [of sample_world _ ?e scan_pdf "''/ro''" "CHR ''p''" "CHR ''p''" "''p''" 0 "[]" 0,
                  THEN conjunct2, THEN conjunct2, rule_format, OF rendered]
  have third: "convert_pdf_loop sample_env sample_world scan_pdf ''/ro'' ''SVG'' ''.svg'' 0
       [Inr CHR ''p''] 0 =
     (log_add (Info_converted_pdf_page 1 ''/ro/scan_page1.svg'')
        (log_add (Error_saving_svg ?e) sample_world), Inr 1)"
    by (simp add: joinpath_def scan_pdf_def one del: convert_pdf_loop.simps(3))
  from first second third show ?thesis
    by (intro conjI)
qed

section \<open>PDF sources and document targets\<close>

lemma convert_pdf_page_no_encoder:
  assumes family: "output_format \<in> set [''EXCEL'', ''WORD'', ''CSV'']"
    and no_encoder: "\<forall>img opts. isl (pil_encode env img output_format opts)"
  shows "\<exists>e. convert_pdf_page env w base_name output_folder output_format ext_out i page
               = (w, Inl e)
           \<and> (\<forall>pix img_data img.
                 get_pixmap env page 3 = Inr pix \<and> tobytes env pix ''png'' = Inr img_data
                 \<and> pil_decode env img_data = Inr img
                 \<longrightarrow> pil_encode env img output_format NoOpts = Inl e)"
proof -
  have mode: "convert_pdf_file_mode env output_format img = Inr img" for img
    using family by (auto simp: convert_pdf_file_mode_def)
  have save: "convert_pdf_file_save env w img name output_format = (w, Inl e)"
    if "pil_encode env img output_format NoOpts = Inl e" for img name e
    using family that by (auto simp: convert_pdf_file_save_def Image_save_def)
  show ?thesis
  proof (cases "get_pixmap env page 3")
    case (Inl e)
    then show ?thesis by (simp add: convert_pdf_page_def)
  next
    case pix: (Inr pix)
    show ?thesis
    proof (cases "tobytes env pix ''png''")
      case (Inl e)
      with pix show ?thesis by (simp add: convert_pdf_page_def)
    next
      case data: (Inr img_data)
      show ?thesis
      proof (cases "pil_decode env img_data")
        case (Inl e)
        with pix data show ?thesis by (simp add: convert_pdf_page_def)
      next
        case (Inr page_img)
        from no_encoder have "isl (pil_encode env page_img output_format NoOpts)"
          by blast
        then obtain e where e: "pil_encode env page_img output_format NoOpts = Inl e"
          by (cases "pil_encode env page_img output_format NoOpts") simp_all
        with pix data Inr mode save [OF e] show ?thesis
          by (simp add: convert_pdf_page_def Let_def)
      qed
    qed
  qed
qed

lemma convert_pdf_loop_no_encoder:
  assumes family: "output_format \<in> set [''EXCEL'', ''WORD'', ''CSV'']"
    and no_encoder: "\<forall>img opts. isl (pil_encode env img output_format opts)"
  shows "\<exists>w1 new.
           convert_pdf_loop env w file_path output_folder output_format ext_out i
             (map Inr pages) count = (w1, Inr count)
         \<and> files w1 = files w
         \<and> logged w1 = logged w @ new
         \<and> length new = length pages
         \<and> (\<forall>k < length pages. \<exists>e.
               new ! k = Error_converting_pdf_page (i + k + 1) (str_path file_path) e
               \<and> (\<forall>pix img_data img.
                     get_pixmap env (pages ! k) 3 = Inr pix
                     \<and> tobytes env pix ''png'' = Inr img_data
                     \<and> pil_decode env img_data = Inr img
                     \<longrightarrow> pil_encode env img output_format NoOpts = Inl e))"
proof (induction pages arbitrary: w i)
  case Nil
  show ?case
    by (intro exI [of _ w] exI [of _ "[]"]) simp
next
  case (Cons page pages)
  from convert_pdf_page_no_encoder [OF family no_encoder] obtain e where
    page: "convert_pdf_page env w (stem file_path) output_folder output_format ext_out i page
       = (w, Inl e)"
    and cause: "\<forall>pix img_data img.
       get_pixmap env page 3 = Inr pix \<and> tobytes env pix ''png'' = Inr img_data
       \<and> pil_decode env img_data = Inr img
       \<longrightarrow> pil_encode env img output_format NoOpts = Inl e"
    by blast
  let ?entry = "Error_converting_pdf_page (i + 1) (str_path file_path) e"
  from Cons.IH [of "log_add ?entry w" "i + 1"]
  obtain w1 new where rest:
    "convert_pdf_loop env (log_add ?entry w) file_path output_folder output_format ext_out
       (i + 1) (map Inr pages) count = (w1, Inr count)"
    "files w1 = files (log_add ?entry w)"
    "logged w1 = logged (log_add ?entry w) @ new"
    "length new = length pages"
    "\<forall>k < length pages. \<exists>e.
       new ! k = Error_converting_pdf_page (i + 1 + k + 1) (str_path file_path) e
       \<and> (\<forall>pix img_data img.
             get_pixmap env (pages ! k) 3 = Inr pix \<and> tobytes env pix ''png'' = Inr img_data
             \<and> pil_decode env img_data = Inr img
             \<longrightarrow> pil_encode env img output_format NoOpts = Inl e)"
    by blast
  have run: "convert_pdf_loop env w file_path output_folder output_format ext_out i
      (map Inr (page # pages)) count = (w1, Inr count)"
    using page rest(1) by simp
  have fs: "files w1 = files w"
    using rest(2) by (simp add: log_add_def)
  have log: "logged w1 = logged w @ (?entry # new)"
    using rest(3) by (simp add: log_add_def)
  have len: "length (?entry # new) = length (page # pages)"
    using rest(4) by simp
  have each: "\<forall>k < length (page # pages). \<exists>e.
       (?entry # new) ! k = Error_converting_pdf_page (i + k + 1) (str_path file_path) e
       \<and> (\<forall>pix img_data img.
             get_pixmap env ((page # pages) ! k) 3 = Inr pix
             \<and> tobytes env pix ''png'' = Inr img_data
             \<and> pil_decode env img_data = Inr img
             \<longrightarrow> pil_encode env img output_format NoOpts = Inl e)"
  proof (intro allI impI)
    fix k
    assume k: "k < length (page # pages)"
    show "\<exists>e. (?entry # new) ! k = Error_converting_pdf_page (i + k + 1) (str_path file_path) e
       \<and> (\<forall>pix img_data img.
             get_pixmap env ((page # pages) ! k) 3 = Inr pix
             \<and> tobytes env pix ''png'' = Inr img_data
             \<and> pil_decode env img_data = Inr img
             \<longrightarrow> pil_encode env img output_format NoOpts = Inl e)"
    proof (cases k)
      case 0
      with cause show ?thesis
        by (intro exI [of _ e]) simp
    next
      case (Suc j)
      with k have "j < length pages"
        by simp
      with rest(5) obtain e' where
        "new ! j = Error_converting_pdf_page (i + 1 + j + 1) (str_path file_path) e'"
        "\<forall>pix img_data img.
             get_pixmap env (pages ! j) 3 = Inr pix \<and> tobytes env pix ''png'' = Inr img_data
             \<and> pil_decode env img_data = Inr img
             \<longrightarrow> pil_encode env img output_format NoOpts = Inl e'"
        by blast
      with Suc show ?thesis
        by (intro exI [of _ e']) simp
    qed
  qed
  from run fs log len each show ?case
    by blast
qed

text \<open>
  C10, as the code has it. A source with the extension \<^verbatim>\<open>.pdf\<close> (in any letter
  case) is handed to \<^verbatim>\<open>convert_pdf_file\<close> for every target, with no look at the
  family of the target. With a target among EXCEL, WORD, CSV, for which the imaging
  library has no encoder: when the PDF does not open, \<^verbatim>\<open>convert_file\<close> returns 0; when
  it opens and the page iteration delivers its pages, every page raises inside the
  handler of the loop, a rendered page at the call of the encoder; the log gets one
  failure per page, in the order of the pages, with that exception; no file changes and
  \<^verbatim>\<open>convert_file\<close> returns 0.
\<close>

theorem pdf_source_has_no_family_check:
  assumes pdf: "lower (suffix file_path) = ''.pdf''"
    and target: "dict_get FORMAT_MAPPING selected_format (''JPEG'', ''.jpg'') = (output_format, ext_out)"
  shows "convert_file env w file_path output_folder selected_format
           = convert_pdf_file env w file_path output_folder output_format ext_out
       \<and> (output_format \<in> set [''EXCEL'', ''WORD'', ''CSV'']
            \<and> fitz_open env w (str_path file_path) = Inl e
          \<longrightarrow> convert_file env w file_path output_folder selected_format
                = (log_add (Error_opening_pdf (str_path file_path) e) w, Inr 0))
       \<and> (output_format \<in> set [''EXCEL'', ''WORD'', ''CSV'']
            \<and> (\<forall>img opts. isl (pil_encode env img output_format opts))
            \<and> fitz_open env w (str_path file_path) = Inr (map Inr pages)
          \<longrightarrow> (\<exists>w1 new.
                  convert_file env w file_path output_folder selected_format = (w1, Inr 0)
                \<and> files w1 = files w
                \<and> logged w1 = logged w @ new
                \<and> length new = length pages
                \<and> (\<forall>k < length pages. \<exists>e.
                      new ! k = Error_converting_pdf_page (k + 1) (str_path file_path) e
                      \<and> (\<forall>pix img_data img.
                            get_pixmap env (pages ! k) 3 = Inr pix
                            \<and> tobytes env pix ''png'' = Inr img_data
                            \<and> pil_decode env img_data = Inr img
                            \<longrightarrow> pil_encode env img output_format NoOpts = Inl e))))"
proof -
  have routed: "convert_file env w file_path output_folder selected_format
      = convert_pdf_file env w file_path output_folder output_format ext_out"
    using pdf by (simp add: convert_file_def target)
  have closed: "convert_file env w file_path output_folder selected_format
      = (log_add (Error_opening_pdf (str_path file_path) e) w, Inr 0)"
    if "fitz_open env w (str_path file_path) = Inl e"
    using that by (simp add: routed convert_pdf_file_def)
  have pages: "\<exists>w1 new.
        convert_file env w file_path output_folder selected_format = (w1, Inr 0)
      \<and> files w1 = files w
      \<and> logged w1 = logged w @ new
      \<and> length new = length pages
      \<and> (\<forall>k < length pages. \<exists>e.
            new ! k = Error_converting_pdf_page (k + 1) (str_path file_path) e
            \<and> (\<forall>pix img_data img.
                  get_pixmap env (pages ! k) 3 = Inr pix
                  \<and> tobytes env pix ''png'' = Inr img_data
                  \<and> pil_decode env img_data = Inr img
                  \<longrightarrow> pil_encode env img output_format NoOpts = Inl e))"
    if family: "output_format \<in> set [''EXCEL'', ''WORD'', ''CSV'']"
      and no_encoder: "\<forall>img opts. isl (pil_encode env img output_format opts)"
      and opened: "fitz_open env w (str_path file_path) = Inr (map Inr pages)"
  proof -
    from convert_pdf_loop_no_encoder
           [OF family no_encoder, of w file_path output_folder ext_out 0 pages 0]
    obtain w1 new where
      "convert_pdf_loop env w file_path output_folder output_format ext_out 0
         (map Inr pages) 0 = (w1, Inr 0)"
      "files w1 = files w" "logged w1 = logged w @ new" "length new = length pages"
      "\<forall>k < length pages. \<exists>e.
         new ! k = Error_converting_pdf_page (0 + k + 1) (str_path file_path) e
         \<and> (\<forall>pix img_data img.
               get_pixmap env (pages ! k) 3 = Inr pix
               \<and> tobytes env pix ''png'' = Inr img_data
               \<and> pil_decode env img_data = Inr img
               \<longrightarrow> pil_encode env img output_format NoOpts = Inl e)"
      by blast
    with opened show ?thesis
      by (intro exI [of _ w1] exI [of _ new]) (simp add: routed convert_pdf_file_def)
  qed
  from routed closed pages show ?thesis
    by blast
qed

text \<open>
  C10 as it is written fails: for the encrypted PDF of the concrete world and the target
  EXCEL, the page iteration raises and the exception leaves \<^verbatim>\<open>convert_file\<close>.
\<close>

theorem pdf_document_target_counterexample:
  "convert_file sample_env sample_world locked_pdf ''/out'' ''EXCEL''
     = (sample_world, Inl (ValueError ''document closed or encrypted''))"
proof -
  have pdf: "lower (suffix locked_pdf) = ''.pdf''"
    by code_simp
  have excel: "dict_get FORMAT_MAPPING ''EXCEL'' (''JPEG'', ''.jpg'') = (''EXCEL'', ''.xlsx'')"
    by (simp add: dict_get_def FORMAT_MAPPING_def)
  have opened: "fitz_open sample_env sample_world (str_path locked_pdf)
     = Inr [Inl (ValueError ''document closed or encrypted'')]"
    by (simp add: fitz_open_def sample_env_def sample_world_def str_path_def locked_pdf_def)
  show ?thesis
    by (simp add: convert_file_def excel pdf convert_pdf_file_def opened)
qed

text \<open>
  The PDF of ten pages with the target EXCEL: the count 0, no file written, ten failures
  in the log, the first one the \<^verbatim>\<open>KeyError\<close> of the encoder. A file that is no PDF
  under the name \<^verbatim>\<open>table.pdf\<close> does not open and gives 0 as well.
\<close>

theorem pdf_source_has_no_family_check_witness:
  "(\<exists>w1 new. convert_file sample_env sample_world scan_pdf ''/out'' ''EXCEL'' = (w1, Inr 0)
      \<and> convert_file sample_env sample_world scan_pdf ''/out'' ''EXCEL''
          = convert_pdf_file sample_env sample_world scan_pdf ''/out'' ''EXCEL'' ''.xlsx''
      \<and> files w1 = files sample_world
      \<and> logged w1 = new
      \<and> length new = 10
      \<and> new ! 0 = Error_converting_pdf_page 1 ''/in/scan.pdf'' (KeyError ''EXCEL''))
   \<and> convert_file sample_env sample_world
        \<lparr>parent = ''/in'', stem = ''missing'', suffix = ''.pdf''\<rparr> ''/out'' ''EXCEL''
      = (log_add (Error_opening_pdf ''/in/missing.pdf'' (FileNotFoundError ''/in/missing.pdf''))
           sample_world, Inr 0)"
proof -
  let ?missing = "\<lparr>parent = ''/in'', stem = ''missing'', suffix = ''.pdf''\<rparr>"
  have pdf: "lower (suffix scan_pdf) = ''.pdf''" and pdf': "lower (suffix ?missing) = ''.pdf''"
    by code_simp+
  have excel: "dict_get FORMAT_MAPPING ''EXCEL'' (''JPEG'', ''.jpg'') = (''EXCEL'', ''.xlsx'')"
    by (simp add: dict_get_def FORMAT_MAPPING_def)
  have path: "str_path scan_pdf = ''/in/scan.pdf''" "str_path ?missing = ''/in/missing.pdf''"
    by (simp_all add: str_path_def scan_pdf_def)
  have family: "''EXCEL'' \<in> set [''EXCEL'', ''WORD'', ''CSV'']
      \<and> (\<forall>img opts. isl (pil_encode sample_env img ''EXCEL'' opts))
      \<and> fitz_open sample_env sample_world (str_path scan_pdf) = Inr (map Inr ''ppppxppppp'')"
    by (simp add: path fitz_open_def sample_env_def sample_encode_def sample_world_def)
  have closed: "''EXCEL'' \<in> set [''EXCEL'', ''WORD'', ''CSV'']
      \<and> fitz_open sample_env sample_world (str_path ?missing)
          = Inl (FileNotFoundError ''/in/missing.pdf'')"
    by (simp add: path fitz_open_def sample_world_def)
  have rendered: "get_pixmap sample_env (''ppppxppppp'' ! 0) 3 = Inr CHR ''p''
      \<and> tobytes sample_env CHR ''p'' ''png'' = Inr ''p''
      \<and> pil_decode sample_env ''p'' = Inr sample_image"
    by (simp add: sample_env_def)
  have key: "pil_encode sample_env sample_image ''EXCEL'' NoOpts = Inl (KeyError ''EXCEL'')"
    by (simp add: sample_env_def sample_encode_def)
  note scan = pdf_source_has_no_family_check [OF pdf excel, of sample_env sample_world "''/out''"]
  from scan [THEN conjunct1]
  have routed: "convert_file sample_env sample_world scan_pdf ''/out'' ''EXCEL''
      = convert_pdf_file sample_env sample_world scan_pdf ''/out'' ''EXCEL'' ''.xlsx''" .
  from scan [THEN conjunct2, THEN conjunct2, rule_format, OF family]
  obtain w1 new where run:
    "convert_file sample_env sample_world scan_pdf ''/out'' ''EXCEL'' = (w1, Inr 0)"
    "files w1 = files sample_world" "logged w1 = logged sample_world @ new"
    "length new = length ''ppppxppppp''"
    and each: "\<forall>k < length ''ppppxppppp''. \<exists>e.
       new ! k = Error_converting_pdf_page (k + 1) (str_path scan_pdf) e
       \<and> (\<forall>pix img_data img.
             get_pixmap sample_env (''ppppxppppp'' ! k) 3 = Inr pix
             \<and> tobytes sample_env pix ''png'' = Inr img_data
             \<and> pil_decode sample_env img_data = Inr img
             \<longrightarrow> pil_encode sample_env img ''EXCEL'' NoOpts = Inl e)"
    by blast
  from each [rule_format, of 0] obtain e where
    entry: "new ! 0 = Error_converting_pdf_page (0 + 1) (str_path scan_pdf) e"
    and cause: "\<forall>pix img_data img.
             get_pixmap sample_env (''ppppxppppp'' ! 0) 3 = Inr pix
             \<and> tobytes sample_env pix ''png'' = Inr img_data
             \<and> pil_decode sample_env img_data = Inr img
             \<longrightarrow> pil_encode sample_env img ''EXCEL'' NoOpts = Inl e"
    by auto
  from cause rendered have "pil_encode sample_env sample_image ''EXCEL'' NoOpts = Inl e"
    by blast
  with key have "e = KeyError ''EXCEL''"
    by simp
  with entry have first: "new ! 0 = Error_converting_pdf_page 1 ''/in/scan.pdf'' (KeyError ''EXCEL'')"
    by (simp add: path)
  have "logged w1 = new"
    using run(3) by (simp add: sample_world_def)
  with run routed first have left: "\<exists>w1 new.
      convert_file sample_env sample_world scan_pdf ''/out'' ''EXCEL'' = (w1, Inr 0)
      \<and> convert_file sample_env sample_world scan_pdf ''/out'' ''EXCEL''
          = convert_pdf_file sample_env sample_world scan_pdf ''/out'' ''EXCEL'' ''.xlsx''
      \<and> files w1 = files sample_world
      \<and> logged w1 = new
      \<and> length new = 10
      \<and> new ! 0 = Error_converting_pdf_page 1 ''/in/scan.pdf'' (KeyError ''EXCEL'')"
    by (intro exI [of _ w1] exI [of _ new]) simp
  from pdf_source_has_no_family_check
         [OF pdf' excel, of sample_env sample_world "''/out''",
          THEN conjunct2, THEN conjunct1, rule_format, OF closed]
  have right: "convert_file sample_env sample_world ?missing ''/out'' ''EXCEL''
      = (log_add (Error_opening_pdf ''/in/missing.pdf'' (FileNotFoundError ''/in/missing.pdf''))
           sample_world, Inr 0)"
    by (simp only: path)
  from left right show ?thesis
    by (rule conjI)
qed

end
